theory Spec2Isabelle
  imports Main "HOL-Library.Sublist"
begin

section \<open>The change engine (internal/selfmod/engine.go)\<close>

subsection \<open>Data model\<close>

text \<open>
  Go strings are byte sequences, so they are modelled as \<open>string\<close> (a list of 8-bit
  characters) and \<open>len\<close> is \<open>length\<close>.
\<close>

record FileChange =
  Path :: string
  Action :: string
  NewContent :: string

record FileDiff =
  DiffPath :: string
  Diff :: string

record ChangeRequest =
  ID :: string
  Description :: string
  Changes :: "FileChange list"
  Diffs :: "FileDiff list"
  Status :: string
  CreatedAt :: nat

text \<open>
  The causes of an error of the \<open>os\<close> package that the engine tells apart:
  \<open>os.IsNotExist\<close> holds of \<open>NotExist\<close> only.
\<close>

datatype os_error = NotExist | OtherError string

text \<open>
  What the engine calls but does not define: the lexical path functions of
  \<open>path/filepath\<close> and its walk of a directory, the file operations of \<open>os\<close>,
  \<open>strings.TrimSpace\<close>, \<open>json.Unmarshal\<close> on the model's answer (it yields the
  description and the changes, or its error) and the patch text that the diff library
  computes from the old and the new content. They are parameters of the model, over a
  type \<open>'fs\<close> of working trees, and every property below holds for all of them. A file
  operation returns the tree it leaves behind also when it fails.
\<close>

record 'fs sys =
  Clean :: "string \<Rightarrow> string"
  Join :: "string \<Rightarrow> string \<Rightarrow> string"
  Dir :: "string \<Rightarrow> string"
  MkdirAll :: "string \<Rightarrow> 'fs \<Rightarrow> string option \<times> 'fs"
  WriteFile :: "string \<Rightarrow> string \<Rightarrow> 'fs \<Rightarrow> string option \<times> 'fs"
  Remove :: "string \<Rightarrow> 'fs \<Rightarrow> os_error option \<times> 'fs"
  ReadFile :: "string \<Rightarrow> 'fs \<Rightarrow> os_error + string"
  WalkFiles :: "string \<Rightarrow> 'fs \<Rightarrow> string + string list"
  TrimSpace :: "string \<Rightarrow> string"
  Unmarshal :: "string \<Rightarrow> string + (string \<times> FileChange list)"
  PatchText :: "string \<Rightarrow> string \<Rightarrow> string"

datatype validation_error =
    ProtectedPath string
  | PathTraversal string
  | InvalidAction string
  | FileTooLarge string nat

datatype engine_error =
    ContextFailed string
  | LLMFailed string
  | ParseFailed string string
  | InvalidChange validation_error
  | DiffFailed string os_error
  | NotFound string
  | NotPending string
  | MkdirFailed string string
  | WriteFailed string string
  | DeleteFailed string os_error

text \<open>
  The engine holds pointers to its change requests: the \<open>requests\<close> table and the
  \<open>history\<close> slice both store \<open>*ChangeRequest\<close>. The objects live in \<open>objs\<close>, a pointer
  is an index into it, and allocation appends. \<open>tree\<close> is the working tree on disk
  under \<open>repoPath\<close>.
\<close>

record 'fs world =
  repoPath :: string
  objs :: "ChangeRequest list"
  requests :: "string \<rightharpoonup> nat"
  history :: "nat list"
  tree :: 'fs

definition NewEngine :: "string \<Rightarrow> 'fs \<Rightarrow> 'fs world" where
  "NewEngine path fs =
     \<lparr>repoPath = path, objs = [], requests = Map.empty, history = [], tree = fs\<rparr>"

text \<open>Every pointer held by the engine points to an allocated object.\<close>

definition wf_world :: "'fs world \<Rightarrow> bool" where
  "wf_world w \<longleftrightarrow>
     (\<forall>a \<in> ran (requests w). a < length (objs w)) \<and>
     (\<forall>a \<in> set (history w). a < length (objs w))"

subsection \<open>String helpers of the Go library\<close>

definition HasPrefix :: "string \<Rightarrow> string \<Rightarrow> bool" where
  "HasPrefix s p \<longleftrightarrow> length p \<le> length s \<and> take (length p) s = p"

fun Contains :: "string \<Rightarrow> string \<Rightarrow> bool" where
  "Contains [] sub = (sub = [])"
| "Contains (c # s) sub = (HasPrefix (c # s) sub \<or> Contains s sub)"

text \<open>\<open>strings.Index\<close>: the position of the first occurrence, \<open>None\<close> for \<open>-1\<close>.\<close>

fun Index :: "string \<Rightarrow> string \<Rightarrow> nat option" where
  "Index [] sub = (if sub = [] then Some 0 else None)"
| "Index (c # s) sub =
     (if HasPrefix (c # s) sub then Some 0 else map_option Suc (Index s sub))"

subsection \<open>Validation\<close>

definition protectedPaths :: "string list" where
  "protectedPaths =
     [''Dockerfile'', ''fly.toml'', ''.github'', ''.env'', ''.env.local'', ''.env.production'']"

text \<open>
  The source ranges over the keys of a map, in no fixed order; every match returns the
  same error, so the order does not show in the result.
\<close>

definition validateChange :: "'fs sys \<Rightarrow> FileChange \<Rightarrow> validation_error option" where
  "validateChange sys change =
     (let cleanPath = Clean sys (Path change) in
      if list_ex (\<lambda>protected. HasPrefix cleanPath protected) protectedPaths
        then Some (ProtectedPath (Path change))
      else if Contains cleanPath ''..''
        then Some (PathTraversal (Path change))
      else if Action change \<noteq> ''create'' \<and> Action change \<noteq> ''modify''
              \<and> Action change \<noteq> ''delete''
        then Some (InvalidAction (Action change))
      else if length (NewContent change) > 2 ^ 20
        then Some (FileTooLarge (Path change) (length (NewContent change)))
      else None)"

text \<open>The validation loop of \<open>GenerateChanges\<close>: the first invalid change ends it.\<close>

fun validateChanges :: "'fs sys \<Rightarrow> FileChange list \<Rightarrow> validation_error option" where
  "validateChanges sys [] = None"
| "validateChanges sys (change # rest) =
     (case validateChange sys change of
        Some err \<Rightarrow> Some err
      | None \<Rightarrow> validateChanges sys rest)"

subsection \<open>Diffs\<close>

fun generateDiffs ::
  "'fs sys \<Rightarrow> string \<Rightarrow> 'fs \<Rightarrow> FileChange list \<Rightarrow> engine_error + FileDiff list" where
  "generateDiffs sys repo fs [] = Inr []"
| "generateDiffs sys repo fs (change # rest) =
     (let fullPath = Join sys repo (Path change);
          old = (if Action change = ''modify'' \<or> Action change = ''delete''
                 then (case ReadFile sys fullPath fs of
                         Inr data \<Rightarrow> Inr data
                       | Inl NotExist \<Rightarrow> Inr []
                       | Inl err \<Rightarrow> Inl (DiffFailed (Path change) err))
                 else Inr [])
      in case old of
           Inl err \<Rightarrow> Inl err
         | Inr oldContent \<Rightarrow>
             (let newContent = (if Action change = ''delete'' then [] else NewContent change);
                  d = \<lparr>DiffPath = Path change, Diff = PatchText sys oldContent newContent\<rparr>
              in case generateDiffs sys repo fs rest of
                   Inl err \<Rightarrow> Inl err
                 | Inr ds \<Rightarrow> Inr (d # ds)))"

subsection \<open>Model providers (internal/provider/provider.go)\<close>

record Message =
  Role :: string
  Content :: string

record StreamChunk =
  ChunkContent :: string
  Done :: bool

text \<open>
  An \<open>LLMProvider\<close>: \<open>ChatStream\<close> hands the chunks of the answer to the callback one
  by one and then returns its error, if any. The callback of \<open>GenerateChanges\<close> never
  fails, so it sees every chunk.
\<close>

record LLMProvider =
  Name :: string
  ChatStream :: "Message list \<Rightarrow> StreamChunk list \<times> string option"

subsection \<open>Generating a change request\<close>

definition systemPrompt :: string where
  \<open>systemPrompt =
     ''You are a code modification assistant. When the user asks for code changes, respond with a JSON object containing file modifications.\<newline>\<newline>Response format:\<newline>{\<newline>  "description": "Brief description of changes",\<newline>  "changes": [\<newline>    {\<newline>      "path": "relative/path/to/file.go",\<newline>      "action": "create|modify|delete",\<newline>      "new_content": "full file content for create/modify actions"\<newline>    }\<newline>  ]\<newline>}\<newline>\<newline>Rules:\<newline>- Only output valid JSON, no markdown or explanations\<newline>- Use relative paths from the project root\<newline>- For "modify" action, provide the complete new file content\<newline>- For "delete" action, new_content can be omitted\<newline>- Never modify: Dockerfile, fly.toml, .github/, .env files\<newline>- Keep changes minimal and focused''\<close>

text \<open>
  \<open>WalkFiles\<close> gives the relative paths of the files that the walk of the repository
  visits (it skips the directories whose name starts with a dot or is \<open>node_modules\<close>,
  \<open>vendor\<close> or \<open>dist\<close>), or the error of the walk.
\<close>

definition collectContext :: "'fs sys \<Rightarrow> 'fs world \<Rightarrow> string + string" where
  "collectContext sys w =
     (case WalkFiles sys (repoPath w) (tree w) of
        Inl err \<Rightarrow> Inl err
      | Inr rels \<Rightarrow>
          Inr (''File tree:\<newline>'' @ concat (map (\<lambda>rel. ''  '' @ rel @ ''\<newline>'') rels)))"

definition fence :: string where
  "fence = replicate 3 (CHR 0x60)"

definition extractJSON :: "'fs sys \<Rightarrow> string \<Rightarrow> string" where
  "extractJSON sys s =
     TrimSpace sys
       (case Index s (fence @ ''json'') of
          Some idx \<Rightarrow>
            (let s1 = drop (idx + 7) s in
             case Index s1 fence of Some e \<Rightarrow> take e s1 | None \<Rightarrow> s1)
        | None \<Rightarrow>
            (case Index s fence of
               Some idx \<Rightarrow>
                 (let s1 = drop (idx + 3) s in
                  case Index s1 fence of Some e \<Rightarrow> take e s1 | None \<Rightarrow> s1)
             | None \<Rightarrow> s))"

definition truncate :: "string \<Rightarrow> nat \<Rightarrow> string" where
  "truncate s n = (if length s \<le> n then s else take n s @ ''...'')"

text \<open>
  The first half of \<open>GenerateChanges\<close>, up to the decoding of the model's answer: the
  description and the changes the model proposes, or the error returned there.
\<close>

definition proposal ::
  "'fs sys \<Rightarrow> LLMProvider \<Rightarrow> string \<Rightarrow> 'fs world
     \<Rightarrow> engine_error + (string \<times> FileChange list)" where
  "proposal sys llm userRequest w =
     (case collectContext sys w of
        Inl err \<Rightarrow> Inl (ContextFailed err)
      | Inr codeContext \<Rightarrow>
          (let messages =
                 [\<lparr>Role = ''system'', Content = systemPrompt\<rparr>,
                  \<lparr>Role = ''user'',
                   Content = ''Project structure:\<newline>'' @ codeContext
                             @ ''\<newline>\<newline>Request: '' @ userRequest\<rparr>];
               streamed = ChatStream llm messages;
               response = concat (map ChunkContent (fst streamed))
           in case snd streamed of
                Some err \<Rightarrow> Inl (LLMFailed err)
              | None \<Rightarrow>
                  (let responseText = extractJSON sys response in
                   case Unmarshal sys responseText of
                     Inl err \<Rightarrow> Inl (ParseFailed err (truncate responseText 200))
                   | Inr llmResp \<Rightarrow> Inr llmResp)))"

text \<open>
  \<open>GenerateChanges\<close> takes the identifier \<open>uuid.New()\<close> draws and the time
  \<open>time.Now()\<close> reads as arguments. It returns the pointer to the new request. The one
  pointer goes into the request table and into the history.
\<close>

definition GenerateChanges ::
  "'fs sys \<Rightarrow> LLMProvider \<Rightarrow> string \<Rightarrow> string \<Rightarrow> nat \<Rightarrow> 'fs world
     \<Rightarrow> (engine_error + nat) \<times> 'fs world" where
  "GenerateChanges sys llm userRequest uuid now w =
     (case proposal sys llm userRequest w of
        Inl err \<Rightarrow> (Inl err, w)
      | Inr (description, changes) \<Rightarrow>
          (case validateChanges sys changes of
             Some err \<Rightarrow> (Inl (InvalidChange err), w)
           | None \<Rightarrow>
               (case generateDiffs sys (repoPath w) (tree w) changes of
                  Inl err \<Rightarrow> (Inl err, w)
                | Inr diffs \<Rightarrow>
                    (let cr = \<lparr>ID = uuid, Description = description,
                               Changes = changes, Diffs = diffs,
                               Status = ''pending'', CreatedAt = now\<rparr>;
                         a = length (objs w)
                     in (Inr a,
                         w\<lparr>objs := objs w @ [cr],
                           requests := (requests w)(uuid \<mapsto> a),
                           history := history w @ [a]\<rparr>)))))"

subsection \<open>Applying and rejecting\<close>

text \<open>
  One pass of the loop of \<open>ApproveAndApply\<close>. The \<open>switch\<close> has no default: a change
  with another action is skipped.
\<close>

definition applyChange ::
  "'fs sys \<Rightarrow> string \<Rightarrow> FileChange \<Rightarrow> 'fs \<Rightarrow> engine_error option \<times> 'fs" where
  "applyChange sys repo change fs =
     (let fullPath = Join sys repo (Path change) in
      if Action change = ''create'' \<or> Action change = ''modify'' then
        (let dir = Dir sys fullPath in
         case MkdirAll sys dir fs of
           (Some err, fs1) \<Rightarrow> (Some (MkdirFailed dir err), fs1)
         | (None, fs1) \<Rightarrow>
             (case WriteFile sys fullPath (NewContent change) fs1 of
                (Some err, fs2) \<Rightarrow> (Some (WriteFailed (Path change) err), fs2)
              | (None, fs2) \<Rightarrow> (None, fs2)))
      else if Action change = ''delete'' then
        (case Remove sys fullPath fs of
           (Some (OtherError err), fs1) \<Rightarrow> (Some (DeleteFailed (Path change) (OtherError err)), fs1)
         | (_, fs1) \<Rightarrow> (None, fs1))
      else (None, fs))"

fun applyChanges ::
  "'fs sys \<Rightarrow> string \<Rightarrow> FileChange list \<Rightarrow> 'fs \<Rightarrow> engine_error option \<times> 'fs" where
  "applyChanges sys repo [] fs = (None, fs)"
| "applyChanges sys repo (change # rest) fs =
     (case applyChange sys repo change fs of
        (Some err, fs1) \<Rightarrow> (Some err, fs1)
      | (None, fs1) \<Rightarrow> applyChanges sys repo rest fs1)"

definition ApproveAndApply ::
  "'fs sys \<Rightarrow> string \<Rightarrow> 'fs world \<Rightarrow> engine_error option \<times> 'fs world" where
  "ApproveAndApply sys requestID w =
     (case requests w requestID of
        None \<Rightarrow> (Some (NotFound requestID), w)
      | Some a \<Rightarrow>
          (let cr = objs w ! a in
           if Status cr \<noteq> ''pending'' then (Some (NotPending (Status cr)), w)
           else
             (case applyChanges sys (repoPath w) (Changes cr) (tree w) of
                (Some err, fs1) \<Rightarrow> (Some err, w\<lparr>tree := fs1\<rparr>)
              | (None, fs1) \<Rightarrow>
                  (None, w\<lparr>tree := fs1,
                           objs := (objs w)[a := cr\<lparr>Status := ''approved''\<rparr>]\<rparr>))))"

definition Reject :: "string \<Rightarrow> 'fs world \<Rightarrow> engine_error option \<times> 'fs world" where
  "Reject requestID w =
     (case requests w requestID of
        None \<Rightarrow> (Some (NotFound requestID), w)
      | Some a \<Rightarrow>
          (None, w\<lparr>objs := (objs w)[a := (objs w ! a)\<lparr>Status := ''rejected''\<rparr>]\<rparr>))"

definition GetRequest :: "string \<Rightarrow> 'fs world \<Rightarrow> nat option" where
  "GetRequest id' w = requests w id'"

text \<open>\<open>History\<close> copies the slice of pointers, not the objects they point to.\<close>

definition History :: "'fs world \<Rightarrow> nat list" where
  "History w = history w"

text \<open>What a caller reads through a pointer, and through the pointers of a slice.\<close>

definition load :: "'fs world \<Rightarrow> nat \<Rightarrow> ChangeRequest" where
  "load w a = objs w ! a"

definition statusOf :: "'fs world \<Rightarrow> string \<Rightarrow> string option" where
  "statusOf w id' = map_option (\<lambda>a. Status (load w a)) (GetRequest id' w)"

definition historyView :: "'fs world \<Rightarrow> ChangeRequest list" where
  "historyView w = map (load w) (History w)"

section \<open>The connection hub (internal/ws/hub.go)\<close>

record Envelope =
  Type :: string
  Payload :: string

text \<open>
  The \<open>send\<close> channel of a client: the messages waiting in its buffer, oldest first, and
  whether the channel has been closed. Its capacity is the one \<open>ServeWS\<close> gives it.
\<close>

record Client =
  ClientID :: string
  send :: "string list"
  closed :: bool

definition sendCap :: nat where
  "sendCap = 256"

datatype send_result = SendOk | MarshalFailed string | ErrSendBufferFull | PanicClosedChannel

text \<open>
  \<open>Send\<close>, with \<open>json.Marshal\<close> on envelopes as a parameter. The \<open>select\<close> has a
  \<open>default\<close> branch, so the function returns in every case; Go panics on a send to a
  closed channel, which is a result here.
\<close>

definition Send :: "(Envelope \<Rightarrow> string + string) \<Rightarrow> Envelope \<Rightarrow> Client \<Rightarrow> send_result \<times> Client" where
  "Send marshal env c =
     (case marshal env of
        Inl err \<Rightarrow> (MarshalFailed err, c)
      | Inr data \<Rightarrow>
          if closed c then (PanicClosedChannel, c)
          else if length (send c) < sendCap then (SendOk, c\<lparr>send := send c @ [data]\<rparr>)
          else (ErrSendBufferFull, c))"

text \<open>The hub's table of clients, and the two functions that change it.\<close>

definition register :: "Client \<Rightarrow> (string \<rightharpoonup> Client) \<Rightarrow> (string \<rightharpoonup> Client)" where
  "register c clients = clients(ClientID c \<mapsto> c)"

definition unregister :: "string \<Rightarrow> (string \<rightharpoonup> Client) \<Rightarrow> Client option \<times> (string \<rightharpoonup> Client)" where
  "unregister cid clients =
     (case clients cid of
        None \<Rightarrow> (None, clients)
      | Some c \<Rightarrow> (Some (c\<lparr>closed := True\<rparr>), clients(cid := None)))"

section \<open>The session handler (internal/ws/handlers.go)\<close>

subsection \<open>Payloads and collaborators\<close>

record ChatSendPayload =
  Messages :: "Message list"
  ProviderID :: string

text \<open>
  The payloads the handler sends, as the values it passes to \<open>json.Marshal\<close>: a chat
  chunk (content, done), a diff (request id, description, diffs), a status (request id,
  status, message, pull request URL) and an error message.
\<close>

datatype payload =
    ChatChunkPayload string bool
  | SelfModDiffPayload string string "FileDiff list"
  | SelfModStatusPayload string string string string
  | ErrorPayload string

text \<open>
  The calls to the version-control service, to the hosting client and to the engine that
  a handler makes, and the envelopes it passes to \<open>client.Send\<close>, are recorded in the
  order in which they happen.
\<close>

datatype event =
    Emit string payload
  | CallCreateBranch string
  | CallApproveAndApply string
  | CallCommitAll string
  | CallPush string
  | CallCreatePR string string string string
  | CallCheckoutMain
  | CallReject string
  | CallGenerateChanges string string

text \<open>
  The git service (\<open>internal/git\<close>) and the hosting client (\<open>internal/github\<close>) wrap
  external libraries: their results are parameters. An operation of the git service may
  change the working tree.
\<close>

record 'fs GitService =
  CreateBranch :: "string \<Rightarrow> 'fs \<Rightarrow> string option \<times> 'fs"
  CommitAll :: "string \<Rightarrow> 'fs \<Rightarrow> (string + string) \<times> 'fs"
  Push :: "string \<Rightarrow> 'fs \<Rightarrow> string option \<times> 'fs"
  CheckoutMain :: "'fs \<Rightarrow> string option \<times> 'fs"

record GitHubClient =
  CreatePR :: "string \<Rightarrow> string \<Rightarrow> string \<Rightarrow> string \<Rightarrow> string + string"

text \<open>
  The JSON decoders of the inbound payloads (\<open>None\<close> when \<open>json.Unmarshal\<close> fails), the
  text of an engine error and \<open>strings.ToLower\<close>.
\<close>

record codec =
  UnmarshalChatSend :: "string \<Rightarrow> ChatSendPayload option"
  UnmarshalSelfModRequest :: "string \<Rightarrow> (string \<times> string) option"
  UnmarshalApprove :: "string \<Rightarrow> string option"
  ErrorText :: "engine_error \<Rightarrow> string"
  ToLower :: "string \<Rightarrow> string"

text \<open>
  The \<open>ChatHandler\<close>. A nil engine, git service or hosting client is \<open>None\<close>. \<open>cancels\<close>
  holds the clients that have a cancel function stored.
\<close>

record 'fs ChatHandler =
  registry :: "string \<rightharpoonup> LLMProvider"
  engine :: "'fs world option"
  gitSvc :: "'fs GitService option"
  ghClient :: "GitHubClient option"
  cancels :: "string set"

datatype registry_error = LLMNotFound string

definition GetLLM :: "(string \<rightharpoonup> LLMProvider) \<Rightarrow> string \<Rightarrow> registry_error + LLMProvider" where
  "GetLLM llms name =
     (case llms name of
        None \<Rightarrow> Inl (LLMNotFound name)
      | Some p \<Rightarrow> Inr p)"

subsection \<open>Messages\<close>

text \<open>The texts of the status messages, as the UTF-8 bytes of the source's literals.\<close>

definition msgRequestNotFound :: string where
  "msgRequestNotFound =
     map char_of [229, 164, 137, 230, 155, 180, 227, 131, 170, 227, 130, 175, 227, 130, 168,
     227, 130, 185, 227, 131, 136, 227, 129, 140, 232, 166, 139, 227, 129, 164, 227, 129,
     139, 227, 130, 138, 227, 129, 190, 227, 129, 155, 227, 130, 147 :: nat]"

definition msgCreatingBranch :: string where
  "msgCreatingBranch =
     map char_of [227, 131, 150, 227, 131, 169, 227, 131, 179, 227, 131, 129, 227, 130, 146,
     228, 189, 156, 230, 136, 144, 228, 184, 173, 46, 46, 46 :: nat]"

definition msgBranchFailed :: string where
  "msgBranchFailed =
     map char_of [227, 131, 150, 227, 131, 169, 227, 131, 179, 227, 131, 129, 228, 189, 156,
     230, 136, 144, 227, 129, 171, 229, 164, 177, 230, 149, 151, 58, 32 :: nat]"

definition msgApplying :: string where
  "msgApplying =
     map char_of [229, 164, 137, 230, 155, 180, 227, 130, 146, 233, 129, 169, 231, 148, 168,
     228, 184, 173, 46, 46, 46 :: nat]"

definition msgApplyFailed :: string where
  "msgApplyFailed =
     map char_of [229, 164, 137, 230, 155, 180, 227, 129, 174, 233, 129, 169, 231, 148, 168,
     227, 129, 171, 229, 164, 177, 230, 149, 151, 58, 32 :: nat]"

definition msgCommitting :: string where
  "msgCommitting =
     map char_of [227, 130, 179, 227, 131, 159, 227, 131, 131, 227, 131, 136, 227, 129, 151,
     227, 129, 166, 112, 117, 115, 104, 228, 184, 173, 46, 46, 46 :: nat]"

definition msgCommitFailed :: string where
  "msgCommitFailed =
     map char_of [227, 130, 179, 227, 131, 159, 227, 131, 131, 227, 131, 136, 227, 129, 171,
     229, 164, 177, 230, 149, 151, 58, 32 :: nat]"

definition msgPushFailed :: string where
  "msgPushFailed =
     map char_of [112, 117, 115, 104, 227, 129, 171, 229, 164, 177, 230, 149, 151, 58, 32 ::
     nat]"

definition msgPRFailed :: string where
  "msgPRFailed =
     map char_of [80, 82, 228, 189, 156, 230, 136, 144, 227, 129, 171, 229, 164, 177, 230,
     149, 151, 58, 32 :: nat]"

definition msgPRCreated :: string where
  "msgPRCreated =
     map char_of [80, 82, 227, 129, 140, 228, 189, 156, 230, 136, 144, 227, 129, 149, 227,
     130, 140, 227, 129, 190, 227, 129, 151, 227, 129, 159, 239, 188, 129 :: nat]"

definition msgApplied :: string where
  "msgApplied =
     map char_of [229, 164, 137, 230, 155, 180, 227, 129, 140, 233, 129, 169, 231, 148, 168,
     227, 129, 149, 227, 130, 140, 227, 129, 190, 227, 129, 151, 227, 129, 159, 239, 188,
     136, 71, 105, 116, 72, 117, 98, 230, 156, 170, 232, 168, 173, 229, 174, 154, 227, 129,
     174, 227, 129, 159, 227, 130, 129, 80, 82, 227, 129, 175, 228, 189, 156, 230, 136, 144,
     227, 129, 149, 227, 130, 140, 227, 129, 190, 227, 129, 155, 227, 130, 147, 239, 188, 137
     :: nat]"

definition msgRejected :: string where
  "msgRejected =
     map char_of [229, 164, 137, 230, 155, 180, 227, 129, 175, 230, 139, 146, 229, 144, 166,
     227, 129, 149, 227, 130, 140, 227, 129, 190, 227, 129, 151, 227, 129, 159 :: nat]"

definition msgGenerating :: string where
  "msgGenerating =
     map char_of [227, 130, 179, 227, 131, 188, 227, 131, 137, 229, 164, 137, 230, 155, 180,
     227, 130, 146, 231, 148, 159, 230, 136, 144, 227, 129, 151, 227, 129, 166, 227, 129,
     132, 227, 129, 190, 227, 129, 153, 46, 46, 46, 10 :: nat]"

definition msgGenerateFailed :: string where
  "msgGenerateFailed =
     map char_of [10, 229, 164, 137, 230, 155, 180, 227, 129, 174, 231, 148, 159, 230, 136,
     144, 227, 129, 171, 229, 164, 177, 230, 149, 151, 227, 129, 151, 227, 129, 190, 227,
     129, 151, 227, 129, 159, 58, 32 :: nat]"

definition msgGenerated :: string where
  "msgGenerated =
     map char_of [10, 229, 164, 137, 230, 155, 180, 227, 130, 146, 231, 148, 159, 230, 136,
     144, 227, 129, 151, 227, 129, 190, 227, 129, 151, 227, 129, 159, 58, 32 :: nat]"

definition msgReviewDiff :: string where
  "msgReviewDiff =
     map char_of [10, 228, 187, 165, 228, 184, 139, 227, 129, 174, 68, 105, 102, 102, 227,
     130, 146, 231, 162, 186, 232, 170, 141, 227, 129, 151, 227, 129, 166, 230, 137, 191,
     232, 170, 141, 47, 230, 139, 146, 229, 144, 166, 227, 129, 151, 227, 129, 166, 227, 129,
     143, 227, 129, 160, 227, 129, 149, 227, 129, 132, 227, 128, 130 :: nat]"

definition keywordsJa :: "string list" where
  "keywordsJa =
     [map char_of [229, 164, 137, 230, 155, 180, 227, 129, 151, 227, 129, 166 :: nat],
      map char_of [228, 191, 174, 230, 173, 163, 227, 129, 151, 227, 129, 166 :: nat],
      map char_of [232, 191, 189, 229, 138, 160, 227, 129, 151, 227, 129, 166 :: nat],
      map char_of [229, 137, 138, 233, 153, 164, 227, 129, 151, 227, 129, 166 :: nat],
      map char_of [229, 164, 137, 227, 129, 136, 227, 129, 166 :: nat],
      map char_of [227, 130, 179, 227, 131, 188, 227, 131, 137, 227, 130, 146 :: nat],
      map char_of [227, 131, 149, 227, 130, 161, 227, 130, 164, 227, 131, 171, 227, 130, 146
        :: nat],
      map char_of [229, 174, 159, 232, 163, 133, 227, 129, 151, 227, 129, 166 :: nat],
      map char_of [227, 131, 170, 227, 131, 149, 227, 130, 161, 227, 130, 175, 227, 130, 191
        :: nat]]"

definition keywordList :: "string list" where
  "keywordList =
     keywordsJa @
     [''change the'', ''modify the'', ''add a'', ''remove the'', ''update the'',
      ''refactor'', ''implement'', ''fix the code'', ''edit the'',
      ''/change'', ''/modify'', ''/selfmod'']"

definition isCodeChangeRequest :: "codec \<Rightarrow> string \<Rightarrow> bool" where
  "isCodeChangeRequest cd msg = list_ex (\<lambda>kw. Contains (ToLower cd msg) kw) keywordList"

definition sendStatus :: "string \<Rightarrow> string \<Rightarrow> string \<Rightarrow> string \<Rightarrow> event" where
  "sendStatus requestID status message prURL =
     Emit ''selfmod.status'' (SelfModStatusPayload requestID status message prURL)"

definition sendError :: "string \<Rightarrow> event" where
  "sendError msg = Emit ''error'' (ErrorPayload msg)"

subsection \<open>Handlers\<close>

text \<open>
  A handler returns at once and leaves the long work to a goroutine. The model of a
  handler returns the events of the handler itself, the task it starts, if any, and the
  handler's state; the body of each goroutine is a function of its own, below.
\<close>

datatype task =
    StreamTask LLMProvider "Message list"
  | GenerateTask LLMProvider string
  | ApproveTask string

record 'fs run =
  trace :: "event list"
  handler :: "'fs ChatHandler"
  panicked :: bool

definition handleChatCancel :: "string \<Rightarrow> 'fs ChatHandler \<Rightarrow> 'fs ChatHandler" where
  "handleChatCancel cid h = h\<lparr>cancels := cancels h - {cid}\<rparr>"

definition handleSelfModFromChat :: "LLMProvider \<Rightarrow> string \<Rightarrow> event list \<times> task option" where
  "handleSelfModFromChat llm request =
     ([Emit ''chat.chunk'' (ChatChunkPayload msgGenerating False)],
      Some (GenerateTask llm request))"

definition handleChatSend ::
  "codec \<Rightarrow> string \<Rightarrow> string \<Rightarrow> 'fs ChatHandler
     \<Rightarrow> event list \<times> task option \<times> 'fs ChatHandler" where
  "handleChatSend cd cid pl h =
     (case UnmarshalChatSend cd pl of
        None \<Rightarrow> ([], None, h)
      | Some p \<Rightarrow>
          (let h1 = handleChatCancel cid h;
               providerID = (if ProviderID p = [] then ''anthropic'' else ProviderID p)
           in case GetLLM (registry h1) providerID of
                Inl err \<Rightarrow> ([sendError (''LLM provider not found: '' @ providerID)], None, h1)
              | Inr llm \<Rightarrow>
                  (let lastMsg = (if length (Messages p) > 0
                                  then Content (last (Messages p)) else [])
                   in if engine h1 \<noteq> None \<and> isCodeChangeRequest cd lastMsg
                      then (case handleSelfModFromChat llm lastMsg of
                              (evs, t) \<Rightarrow> (evs, t, h1))
                      else ([], Some (StreamTask llm (Messages p)),
                            h1\<lparr>cancels := insert cid (cancels h1)\<rparr>))))"

definition handleSelfModRequest ::
  "codec \<Rightarrow> string \<Rightarrow> 'fs ChatHandler \<Rightarrow> event list \<times> task option" where
  "handleSelfModRequest cd pl h =
     (case UnmarshalSelfModRequest cd pl of
        None \<Rightarrow> ([sendError ''Invalid request payload''], None)
      | Some (request, pid) \<Rightarrow>
          (let providerID = (if pid = [] then ''anthropic'' else pid)
           in case GetLLM (registry h) providerID of
                Inl err \<Rightarrow> ([sendError (''LLM provider not found: '' @ providerID)], None)
              | Inr llm \<Rightarrow> handleSelfModFromChat llm request))"

definition handleSelfModApprove ::
  "codec \<Rightarrow> string \<Rightarrow> 'fs ChatHandler \<Rightarrow> event list \<times> task option" where
  "handleSelfModApprove cd pl h =
     (case UnmarshalApprove cd pl of
        None \<Rightarrow> ([sendError ''Invalid approve payload''], None)
      | Some requestID \<Rightarrow>
          if engine h = None then ([sendError ''Self-modification not configured''], None)
          else ([], Some (ApproveTask requestID)))"

definition handleSelfModReject ::
  "codec \<Rightarrow> string \<Rightarrow> 'fs ChatHandler \<Rightarrow> event list \<times> 'fs ChatHandler" where
  "handleSelfModReject cd pl h =
     (case UnmarshalApprove cd pl of
        None \<Rightarrow> ([], h)
      | Some requestID \<Rightarrow>
          (let called = (case engine h of
                           None \<Rightarrow> ([], h)
                         | Some eng \<Rightarrow>
                             ([CallReject requestID],
                              h\<lparr>engine := Some (snd (Reject requestID eng))\<rparr>))
           in (fst called @ [sendStatus requestID ''rejected'' msgRejected []], snd called)))"

definition HandleMessage ::
  "codec \<Rightarrow> string \<Rightarrow> Envelope \<Rightarrow> 'fs ChatHandler
     \<Rightarrow> event list \<times> task option \<times> 'fs ChatHandler" where
  "HandleMessage cd cid env h =
     (if Type env = ''chat.send'' then handleChatSend cd cid (Payload env) h
      else if Type env = ''chat.cancel'' then ([], None, handleChatCancel cid h)
      else if Type env = ''selfmod.request''
        then (case handleSelfModRequest cd (Payload env) h of (evs, t) \<Rightarrow> (evs, t, h))
      else if Type env = ''selfmod.approve''
        then (case handleSelfModApprove cd (Payload env) h of (evs, t) \<Rightarrow> (evs, t, h))
      else if Type env = ''selfmod.reject''
        then (case handleSelfModReject cd (Payload env) h of (evs, h1) \<Rightarrow> (evs, None, h1))
      else ([], None, h))"

subsection \<open>The goroutines\<close>

text \<open>
  The goroutine of \<open>handleSelfModFromChat\<close>. \<open>handleSelfModRequest\<close> starts it without
  looking at the engine: with a nil engine the call through the nil pointer panics.
\<close>

definition generateTask ::
  "'fs sys \<Rightarrow> codec \<Rightarrow> LLMProvider \<Rightarrow> string \<Rightarrow> string \<Rightarrow> nat \<Rightarrow> 'fs ChatHandler \<Rightarrow> 'fs run" where
  "generateTask sys cd llm request uuid now h =
     (case engine h of
        None \<Rightarrow> \<lparr>trace = [], handler = h, panicked = True\<rparr>
      | Some eng \<Rightarrow>
          (case GenerateChanges sys llm request uuid now eng of
             (Inl err, eng1) \<Rightarrow>
               \<lparr>trace = [CallGenerateChanges (Name llm) request,
                          Emit ''chat.chunk''
                            (ChatChunkPayload (msgGenerateFailed @ ErrorText cd err) True)],
                handler = h\<lparr>engine := Some eng1\<rparr>, panicked = False\<rparr>
           | (Inr a, eng1) \<Rightarrow>
               (let cr = load eng1 a in
                \<lparr>trace = [CallGenerateChanges (Name llm) request,
                           Emit ''chat.chunk''
                             (ChatChunkPayload (msgGenerated @ Description cr @ msgReviewDiff) True),
                           Emit ''selfmod.diff''
                             (SelfModDiffPayload (ID cr) (Description cr) (Diffs cr))],
                 handler = h\<lparr>engine := Some eng1\<rparr>, panicked = False\<rparr>)))"

text \<open>
  The steps of the publish sequence after the changes have been applied, with version
  control configured: commit, push, pull request, checkout.
\<close>

definition commitPushPR ::
  "'fs GitService \<Rightarrow> GitHubClient \<Rightarrow> string \<Rightarrow> string \<Rightarrow> string \<Rightarrow> 'fs world
     \<Rightarrow> event list \<times> 'fs world" where
  "commitPushPR git gh requestID branchName description eng =
     (let commitMsg = ''selfmod: '' @ description;
          t0 = [sendStatus requestID ''pushing'' msgCommitting [], CallCommitAll commitMsg]
      in case CommitAll git commitMsg (tree eng) of
           (Inl err, fs1) \<Rightarrow>
             (t0 @ [sendStatus requestID ''error'' (msgCommitFailed @ err) []],
              eng\<lparr>tree := fs1\<rparr>)
         | (Inr hash, fs1) \<Rightarrow>
             (case Push git branchName fs1 of
                (Some err, fs2) \<Rightarrow>
                  (t0 @ [CallPush branchName,
                         sendStatus requestID ''error'' (msgPushFailed @ err) []],
                   eng\<lparr>tree := fs2\<rparr>)
              | (None, fs2) \<Rightarrow>
                  (let prTitle = ''[selfmod] '' @ description;
                       prBody = ''## Self-Modification Request\<newline>\<newline>'' @ description
                                @ ''\<newline>\<newline>Generated by FlyAGI self-modification engine.'';
                       t1 = t0 @ [CallPush branchName,
                                  CallCreatePR prTitle prBody branchName ''main'']
                   in case CreatePR gh prTitle prBody branchName ''main'' of
                        Inl err \<Rightarrow>
                          (t1 @ [sendStatus requestID ''error'' (msgPRFailed @ err) []],
                           eng\<lparr>tree := fs2\<rparr>)
                      | Inr prURL \<Rightarrow>
                          (t1 @ [sendStatus requestID ''pr_created'' msgPRCreated prURL,
                                 CallCheckoutMain],
                           eng\<lparr>tree := snd (CheckoutMain git fs2)\<rparr>))))"

text \<open>
  The goroutine of \<open>handleSelfModApprove\<close>. The branch name is cut from the first eight
  bytes of the request identifier: on a shorter identifier the slice expression panics.
\<close>

definition approveTask :: "'fs sys \<Rightarrow> codec \<Rightarrow> string \<Rightarrow> 'fs ChatHandler \<Rightarrow> 'fs run" where
  "approveTask sys cd requestID h =
     (case engine h of
        None \<Rightarrow> \<lparr>trace = [], handler = h, panicked = True\<rparr>
      | Some eng \<Rightarrow>
          (case GetRequest requestID eng of
             None \<Rightarrow>
               \<lparr>trace = [sendStatus requestID ''error'' msgRequestNotFound []],
                handler = h, panicked = False\<rparr>
           | Some a \<Rightarrow>
               (case (gitSvc h, ghClient h) of
                  (Some git, Some gh) \<Rightarrow>
                    if length requestID < 8 then \<lparr>trace = [], handler = h, panicked = True\<rparr>
                    else
                      (let branchName = ''selfmod/'' @ take 8 requestID;
                           t0 = [sendStatus requestID ''pushing'' msgCreatingBranch [],
                                 CallCreateBranch branchName]
                       in case CreateBranch git branchName (tree eng) of
                            (Some err, fs1) \<Rightarrow>
                              \<lparr>trace = t0 @ [sendStatus requestID ''error''
                                                (msgBranchFailed @ err) []],
                               handler = h\<lparr>engine := Some (eng\<lparr>tree := fs1\<rparr>)\<rparr>,
                               panicked = False\<rparr>
                          | (None, fs1) \<Rightarrow>
                              (let t1 = t0 @ [sendStatus requestID ''applying'' msgApplying [],
                                              CallApproveAndApply requestID]
                               in case ApproveAndApply sys requestID (eng\<lparr>tree := fs1\<rparr>) of
                                    (Some err, eng1) \<Rightarrow>
                                      \<lparr>trace = t1 @ [sendStatus requestID ''error''
                                                        (msgApplyFailed @ ErrorText cd err) []],
                                       handler = h\<lparr>engine := Some eng1\<rparr>,
                                       panicked = False\<rparr>
                                  | (None, eng1) \<Rightarrow>
                                      (case commitPushPR git gh requestID branchName
                                              (Description (load eng1 a)) eng1 of
                                         (t2, eng2) \<Rightarrow>
                                           \<lparr>trace = t1 @ t2,
                                            handler = h\<lparr>engine := Some eng2\<rparr>,
                                            panicked = False\<rparr>)))
                | _ \<Rightarrow>
                    (let t1 = [sendStatus requestID ''applying'' msgApplying [],
                               CallApproveAndApply requestID]
                     in case ApproveAndApply sys requestID eng of
                          (Some err, eng1) \<Rightarrow>
                            \<lparr>trace = t1 @ [sendStatus requestID ''error''
                                              (msgApplyFailed @ ErrorText cd err) []],
                             handler = h\<lparr>engine := Some eng1\<rparr>, panicked = False\<rparr>
                        | (None, eng1) \<Rightarrow>
                            \<lparr>trace = t1 @ [sendStatus requestID ''applied'' msgApplied []],
                             handler = h\<lparr>engine := Some eng1\<rparr>, panicked = False\<rparr>))))"

subsection \<open>Reading a trace\<close>

text \<open>The status envelopes of a trace, by their status field and in order.\<close>

fun statuses :: "event list \<Rightarrow> string list" where
  "statuses [] = []"
| "statuses (Emit ty (SelfModStatusPayload rid st msg url) # evs) =
     (if ty = ''selfmod.status'' then st # statuses evs else statuses evs)"
| "statuses (ev # evs) = statuses evs"

text \<open>
  A trace stops at its first error status when nothing, neither a call nor an envelope,
  comes after an envelope of type \<open>selfmod.status\<close> with status \<open>error\<close>.
\<close>

fun isErrorStatus :: "event \<Rightarrow> bool" where
  "isErrorStatus (Emit ty (SelfModStatusPayload rid st msg url)) =
     (ty = ''selfmod.status'' \<and> st = ''error'')"
| "isErrorStatus ev = False"

fun stopsAtError :: "event list \<Rightarrow> bool" where
  "stopsAtError [] = True"
| "stopsAtError (ev # evs) = (if isErrorStatus ev then evs = [] else stopsAtError evs)"

fun isErrorEnvelope :: "event \<Rightarrow> bool" where
  "isErrorEnvelope (Emit ty pl) = (ty = ''error'')"
| "isErrorEnvelope ev = False"

fun taskProvider :: "task \<Rightarrow> LLMProvider option" where
  "taskProvider (StreamTask llm messages) = Some llm"
| "taskProvider (GenerateTask llm request) = Some llm"
| "taskProvider (ApproveTask requestID) = None"

subsection \<open>The conditions of the specification, in its words\<close>

text \<open>
  A path matches or is nested under a protected path when it is that path or continues
  it with a separator; it has a parent-directory segment when one of its elements
  between separators is \<open>..\<close>.
\<close>

fun splitPath :: "string \<Rightarrow> string list" where
  "splitPath [] = [[]]"
| "splitPath (c # s) =
     (if c = CHR ''/'' then [] # splitPath s
      else (case splitPath s of
              [] \<Rightarrow> [[c]]
            | e # es \<Rightarrow> (c # e) # es))"

definition spec_under_protected :: "string \<Rightarrow> bool" where
  "spec_under_protected p \<longleftrightarrow>
     list_ex (\<lambda>protected. p = protected \<or> HasPrefix p (protected @ ''/'')) protectedPaths"

definition spec_parent_segment :: "string \<Rightarrow> bool" where
  "spec_parent_segment p \<longleftrightarrow> ''..'' \<in> set (splitPath p)"

definition spec_invalid :: "'fs sys \<Rightarrow> FileChange \<Rightarrow> bool" where
  "spec_invalid sys change \<longleftrightarrow>
     spec_under_protected (Clean sys (Path change))
     \<or> spec_parent_segment (Clean sys (Path change))
     \<or> Action change \<notin> {''create'', ''modify'', ''delete''}
     \<or> length (NewContent change) > 1048576"

subsection \<open>A sample environment\<close>

text \<open>
  The closed examples below run the engine in this environment: the lexical path
  functions as \<open>path/filepath\<close> defines them on Unix, and a working tree in memory, a
  list of paths with their contents, in which the paths listed in \<open>locked\<close> cannot be
  written or removed.
\<close>

fun cleanElems :: "bool \<Rightarrow> string list \<Rightarrow> string list \<Rightarrow> string list" where
  "cleanElems rooted [] out = out"
| "cleanElems rooted (e # es) out =
     (if e = [] \<or> e = ''.'' then cleanElems rooted es out
      else if e = ''..'' then
        (case out of
           [] \<Rightarrow> cleanElems rooted es (if rooted then [] else [''..''])
         | e0 # below \<Rightarrow>
             cleanElems rooted es (if e0 = ''..'' then ''..'' # out else below))
      else cleanElems rooted es (e # out))"

fun joinElems :: "string list \<Rightarrow> string" where
  "joinElems [] = []"
| "joinElems [e] = e"
| "joinElems (e # es) = e @ ''/'' @ joinElems es"

definition unixClean :: "string \<Rightarrow> string" where
  "unixClean p =
     (if p = [] then ''.''
      else
        (let rooted = (hd p = CHR ''/'');
             body = joinElems (rev (cleanElems rooted (splitPath p) []))
         in if rooted then CHR ''/'' # body
            else if body = [] then ''.'' else body))"

definition unixJoin :: "string \<Rightarrow> string \<Rightarrow> string" where
  "unixJoin a b =
     (if a = [] \<and> b = [] then []
      else if a = [] then unixClean b
      else if b = [] then unixClean a
      else unixClean (a @ ''/'' @ b))"

definition unixDir :: "string \<Rightarrow> string" where
  "unixDir p = unixClean (rev (dropWhile (\<lambda>c. c \<noteq> CHR ''/'') (rev p)))"

definition isSpace :: "char \<Rightarrow> bool" where
  "isSpace c \<longleftrightarrow> c \<in> {CHR '' '', CHR 0x09, CHR 0x0A, CHR 0x0B, CHR 0x0C, CHR 0x0D}"

type_synonym memfs = "(string \<times> string) list"

definition memWrite :: "string list \<Rightarrow> string \<Rightarrow> string \<Rightarrow> memfs \<Rightarrow> string option \<times> memfs" where
  "memWrite locked p data fs =
     (if p \<in> set locked then (Some ''permission denied'', fs)
      else (None, (p, data) # filter (\<lambda>e. fst e \<noteq> p) fs))"

definition memRemove :: "string list \<Rightarrow> string \<Rightarrow> memfs \<Rightarrow> os_error option \<times> memfs" where
  "memRemove locked p fs =
     (if p \<in> set locked then (Some (OtherError ''permission denied''), fs)
      else if p \<notin> fst ` set fs then (Some NotExist, fs)
      else (None, filter (\<lambda>e. fst e \<noteq> p) fs))"

definition memRead :: "string \<Rightarrow> memfs \<Rightarrow> os_error + string" where
  "memRead p fs = (case map_of fs p of None \<Rightarrow> Inl NotExist | Some data \<Rightarrow> Inr data)"

definition memSys :: "string list \<Rightarrow> (string \<times> FileChange list) \<Rightarrow> memfs sys" where
  "memSys locked answer =
     \<lparr>Clean = unixClean, Join = unixJoin, Dir = unixDir,
      MkdirAll = (\<lambda>dir fs. (None, fs)),
      WriteFile = memWrite locked,
      Remove = memRemove locked,
      ReadFile = memRead,
      WalkFiles = (\<lambda>repo fs. Inr (map fst fs)),
      TrimSpace = (\<lambda>s. rev (dropWhile isSpace (rev (dropWhile isSpace s)))),
      Unmarshal = (\<lambda>s. if s = [] then Inl ''unexpected end of JSON input'' else Inr answer),
      PatchText = (\<lambda>old new. if old = new then [] else ''-'' @ old @ ''+'' @ new)\<rparr>"

definition sampleLLM :: LLMProvider where
  "sampleLLM =
     \<lparr>Name = ''mock'',
      ChatStream = (\<lambda>messages. ([\<lparr>ChunkContent = ''{}'', Done = False\<rparr>,
                                  \<lparr>ChunkContent = [], Done = True\<rparr>], None))\<rparr>"

definition sampleChange :: FileChange where
  "sampleChange = \<lparr>Path = ''src/x.go'', Action = ''create'', NewContent = ''package x''\<rparr>"

definition dockerChange :: FileChange where
  "dockerChange = \<lparr>Path = ''./Dockerfile'', Action = ''modify'', NewContent = ''FROM scratch''\<rparr>"

definition sampleRequest :: "string \<Rightarrow> ChangeRequest" where
  "sampleRequest st =
     \<lparr>ID = ''0a1b2c3d-0000'', Description = ''add X'', Changes = [sampleChange],
      Diffs = [\<lparr>DiffPath = ''src/x.go'', Diff = ''-+package x''\<rparr>],
      Status = st, CreatedAt = 7\<rparr>"

text \<open>An engine that holds the one sample request, in the given status.\<close>

definition sampleWorld :: "string \<Rightarrow> memfs world" where
  "sampleWorld st =
     \<lparr>repoPath = ''/repo'', objs = [sampleRequest st],
      requests = [''0a1b2c3d-0000'' \<mapsto> 0], history = [0], tree = []\<rparr>"

definition sampleSys :: "memfs sys" where
  "sampleSys = memSys [] (''add X'', [sampleChange])"

text \<open>The sample environment with the file of the sample change locked.\<close>

definition lockedSys :: "memfs sys" where
  "lockedSys = memSys [''/repo/src/x.go''] (''add X'', [sampleChange])"

definition sampleMarshal :: "Envelope \<Rightarrow> string + string" where
  "sampleMarshal env =
     (if Payload env = ''{'' then Inl ''unexpected end of JSON input''
      else Inr (Type env @ '' '' @ Payload env))"

text \<open>
  A git service and a hosting client whose steps fail as told: \<open>None\<close> lets a step
  succeed, \<open>Some err\<close> makes it fail with that error.
\<close>

definition sampleGit :: "string option \<Rightarrow> string option \<Rightarrow> string option \<Rightarrow> memfs GitService" where
  "sampleGit branchResult commitResult pushResult =
     \<lparr>CreateBranch = (\<lambda>name fs. (branchResult, fs)),
      CommitAll = (\<lambda>message fs.
                     ((case commitResult of None \<Rightarrow> Inr ''4f2a9c1e'' | Some err \<Rightarrow> Inl err), fs)),
      Push = (\<lambda>branchName fs. (pushResult, fs)),
      CheckoutMain = (\<lambda>fs. (None, fs))\<rparr>"

definition sampleGitHub :: "string option \<Rightarrow> GitHubClient" where
  "sampleGitHub prResult =
     \<lparr>CreatePR = (\<lambda>title body h b.
                    (case prResult of
                       None \<Rightarrow> Inr ''https://example.org/pull/1''
                     | Some err \<Rightarrow> Inl err))\<rparr>"

definition sampleCodec :: codec where
  "sampleCodec =
     \<lparr>UnmarshalChatSend =
        (\<lambda>s. if s = [] then None
             else Some \<lparr>Messages = [\<lparr>Role = ''user'', Content = s\<rparr>], ProviderID = []\<rparr>),
      UnmarshalSelfModRequest = (\<lambda>s. if s = [] then None else Some (s, [])),
      UnmarshalApprove = (\<lambda>s. if s = [] then None else Some s),
      ErrorText = (\<lambda>err. ''engine error''),
      ToLower = (\<lambda>s. s)\<rparr>"

definition sampleHandler :: "memfs GitService \<Rightarrow> GitHubClient \<Rightarrow> memfs ChatHandler" where
  "sampleHandler git gh =
     \<lparr>registry = Map.empty, engine = Some (sampleWorld ''pending''),
      gitSvc = Some git, ghClient = Some gh, cancels = {}\<rparr>"

definition fullClient :: Client where
  "fullClient = \<lparr>ClientID = ''c1'', send = replicate 256 ''m'', closed = False\<rparr>"

definition idleClient :: Client where
  "idleClient = \<lparr>ClientID = ''c1'', send = [''m''], closed = False\<rparr>"

definition pingEnvelope :: Envelope where
  "pingEnvelope = \<lparr>Type = ''test.ping'', Payload = ''{}''\<rparr>"

definition appliedWorld :: "memfs world" where
  "appliedWorld = (sampleWorld ''approved'')\<lparr>tree := [(''/repo/src/x.go'', ''package x'')]\<rparr>"

definition bareHandler :: "memfs ChatHandler" where
  "bareHandler =
     \<lparr>registry = Map.empty, engine = None, gitSvc = None, ghClient = None, cancels = {}\<rparr>"

section \<open>Properties of the change engine\<close>

subsection \<open>Strings and paths\<close>

lemma HasPrefix_iff_prefix: "HasPrefix s p \<longleftrightarrow> prefix p s"
  unfolding HasPrefix_def prefix_def
  by (metis append_eq_conv_conj append_take_drop_id length_take min.absorb2 nat_le_linear take_all)

lemma Contains_iff_sublist: "Contains s sub \<longleftrightarrow> sublist sub s"
  by (induction s) (auto simp: HasPrefix_iff_prefix sublist_Cons_right)

lemma splitPath_not_Nil: "splitPath s \<noteq> []"
  by (induction s) (auto split: list.splits)

lemma splitPath_hd_prefix: "splitPath s = x # xs \<Longrightarrow> prefix x s"
  by (induction s arbitrary: x xs) (auto split: if_splits list.splits)

lemma splitPath_elem_sublist: "e \<in> set (splitPath s) \<Longrightarrow> sublist e s"
proof (induction s arbitrary: e)
  case Nil
  then show ?case by simp
next
  case (Cons c s)
  show ?case
  proof (cases "c = CHR ''/''")
    case True
    with Cons.prems have "e = [] \<or> e \<in> set (splitPath s)" by simp
    then show ?thesis
      using Cons.IH by (auto simp: sublist_Cons_right)
  next
    case False
    obtain x xs where sp: "splitPath s = x # xs"
      using splitPath_not_Nil by (cases "splitPath s") auto
    with False Cons.prems have "e = c # x \<or> e \<in> set xs" by simp
    then show ?thesis
    proof
      assume e: "e = c # x"
      have "prefix x s" using sp by (rule splitPath_hd_prefix)
      then show ?thesis using e by (simp add: sublist_Cons_right)
    next
      assume "e \<in> set xs"
      then have "sublist e s" using Cons.IH sp by simp
      then show ?thesis by (simp add: sublist_Cons_right)
    qed
  qed
qed

subsection \<open>Validation\<close>

lemma protected_prefix_rejected:
  assumes "protected \<in> set protectedPaths" and "prefix protected (Clean sys (Path change))"
  shows "validateChange sys change = Some (ProtectedPath (Path change))"
proof -
  have "list_ex (\<lambda>protected. HasPrefix (Clean sys (Path change)) protected) protectedPaths"
    using assms by (auto simp: list_ex_iff HasPrefix_iff_prefix)
  then show ?thesis by (simp add: validateChange_def)
qed

lemma spec_invalid_rejected:
  assumes "spec_invalid sys change"
  shows "validateChange sys change \<noteq> None"
proof -
  let ?p = "Clean sys (Path change)"
  consider (prot) "spec_under_protected ?p" | (dots) "spec_parent_segment ?p"
    | (act) "Action change \<notin> {''create'', ''modify'', ''delete''}"
    | (big) "length (NewContent change) > 1048576"
    using assms unfolding spec_invalid_def by blast
  then show ?thesis
  proof cases
    case prot
    then obtain protected where "protected \<in> set protectedPaths"
      and "?p = protected \<or> prefix (protected @ ''/'') ?p"
      by (auto simp: spec_under_protected_def list_ex_iff HasPrefix_iff_prefix)
    then have "prefix protected ?p"
      by (auto dest: append_prefixD)
    with \<open>protected \<in> set protectedPaths\<close> show ?thesis
      by (simp add: protected_prefix_rejected)
  next
    case dots
    then have "Contains ?p ''..''"
      by (simp add: spec_parent_segment_def Contains_iff_sublist splitPath_elem_sublist)
    then show ?thesis by (simp add: validateChange_def Let_def)
  next
    case act
    then show ?thesis by (simp add: validateChange_def Let_def)
  next
    case big
    then show ?thesis by (simp add: validateChange_def Let_def)
  qed
qed

lemma validateChange_None_iff:
  "validateChange sys change = None \<longleftrightarrow>
     (\<forall>protected \<in> set protectedPaths. \<not> prefix protected (Clean sys (Path change)))
     \<and> \<not> sublist ''..'' (Clean sys (Path change))
     \<and> Action change \<in> {''create'', ''modify'', ''delete''}
     \<and> length (NewContent change) \<le> 1048576"
  by (auto simp: validateChange_def Let_def list_ex_iff HasPrefix_iff_prefix Contains_iff_sublist)

lemma validateChanges_finds:
  "c \<in> set cs \<Longrightarrow> validateChange sys c \<noteq> None \<Longrightarrow> validateChanges sys cs \<noteq> None"
  by (induction cs) (auto split: option.splits)

subsection \<open>The engine keeps its pointers valid\<close>

lemma wf_NewEngine: "wf_world (NewEngine path fs)"
  by (simp add: wf_world_def NewEngine_def)

lemma wf_pointer_valid: "wf_world w \<Longrightarrow> GetRequest rid w = Some a \<Longrightarrow> a < length (objs w)"
  by (auto simp: wf_world_def GetRequest_def ran_def)

lemma GenerateChanges_cases:
  "GenerateChanges sys llm userRequest uuid now w = (r, w') \<Longrightarrow>
     (\<exists>err. r = Inl err \<and> w' = w)
     \<or> (\<exists>description changes diffs.
           r = Inr (length (objs w))
         \<and> proposal sys llm userRequest w = Inr (description, changes)
         \<and> validateChanges sys changes = None
         \<and> generateDiffs sys (repoPath w) (tree w) changes = Inr diffs
         \<and> w' = w\<lparr>objs := objs w @ [\<lparr>ID = uuid, Description = description,
                                       Changes = changes, Diffs = diffs,
                                       Status = ''pending'', CreatedAt = now\<rparr>],
                   requests := (requests w)(uuid \<mapsto> length (objs w)),
                   history := history w @ [length (objs w)]\<rparr>)"
  by (auto simp: GenerateChanges_def Let_def split: sum.splits option.splits prod.splits)

lemma wf_GenerateChanges:
  assumes "wf_world w"
  shows "wf_world (snd (GenerateChanges sys llm userRequest uuid now w))"
proof -
  obtain r w' where g: "GenerateChanges sys llm userRequest uuid now w = (r, w')"
    by (cases "GenerateChanges sys llm userRequest uuid now w")
  from GenerateChanges_cases [OF g] show ?thesis
  proof
    assume "\<exists>err. r = Inl err \<and> w' = w"
    with g assms show ?thesis by auto
  next
    assume "\<exists>description changes diffs.
           r = Inr (length (objs w))
         \<and> proposal sys llm userRequest w = Inr (description, changes)
         \<and> validateChanges sys changes = None
         \<and> generateDiffs sys (repoPath w) (tree w) changes = Inr diffs
         \<and> w' = w\<lparr>objs := objs w @ [\<lparr>ID = uuid, Description = description,
                                       Changes = changes, Diffs = diffs,
                                       Status = ''pending'', CreatedAt = now\<rparr>],
                   requests := (requests w)(uuid \<mapsto> length (objs w)),
                   history := history w @ [length (objs w)]\<rparr>"
    then obtain cr where w': "w' = w\<lparr>objs := objs w @ [cr],
                   requests := (requests w)(uuid \<mapsto> length (objs w)),
                   history := history w @ [length (objs w)]\<rparr>" by blast
    have "a < Suc (length (objs w))" if "a \<in> ran ((requests w)(uuid \<mapsto> length (objs w)))" for a
    proof -
      from that obtain k where k: "((requests w)(uuid \<mapsto> length (objs w))) k = Some a"
        by (auto simp: ran_def)
      show ?thesis
      proof (cases "k = uuid")
        case True
        with k show ?thesis by simp
      next
        case False
        with k have "a \<in> ran (requests w)" by (auto simp: ran_def)
        with assms show ?thesis by (auto simp: wf_world_def)
      qed
    qed
    moreover have "a < Suc (length (objs w))" if "a \<in> set (history w)" for a
      using that assms by (auto simp: wf_world_def)
    ultimately show ?thesis using g w' by (auto simp: wf_world_def)
  qed
qed

lemma wf_ApproveAndApply: "wf_world w \<Longrightarrow> wf_world (snd (ApproveAndApply sys rid w))"
  by (auto simp: ApproveAndApply_def wf_world_def Let_def split: option.splits prod.splits)

lemma wf_Reject: "wf_world w \<Longrightarrow> wf_world (snd (Reject rid w))"
  by (auto simp: Reject_def wf_world_def split: option.splits)

subsection \<open>Evaluating the sample environment\<close>

lemmas sample_defs = sampleChange_def sampleRequest_def sampleWorld_def sampleLLM_def
  sampleSys_def lockedSys_def
  memSys_def memWrite_def memRemove_def memRead_def unixClean_def unixJoin_def unixDir_def

lemma sample_proposal:
  "proposal (memSys locked answer) sampleLLM userRequest (NewEngine ''/repo'' []) = Inr answer"
  by (simp add: proposal_def collectContext_def NewEngine_def sample_defs extractJSON_def
      fence_def isSpace_def HasPrefix_def)

lemma sample_generate:
  "GenerateChanges sampleSys sampleLLM ''please add a module X'' ''0a1b2c3d-0000'' 7
     (NewEngine ''/repo'' []) = (Inr 0, sampleWorld ''pending'')"
  by (simp add: GenerateChanges_def sampleSys_def sample_proposal)
    (simp add: validateChange_def protectedPaths_def HasPrefix_def NewEngine_def sample_defs)

subsection \<open>Approving\<close>

lemma applyChanges_append:
  "applyChanges sys repo (xs @ ys) fs =
     (case applyChanges sys repo xs fs of
        (Some err, fs1) \<Rightarrow> (Some err, fs1)
      | (None, fs1) \<Rightarrow> applyChanges sys repo ys fs1)"
  by (induction xs arbitrary: fs) (auto split: prod.splits option.splits)

lemma applyChanges_fold:
  "applyChanges sys repo cs fs = (None, fs') \<Longrightarrow>
     fs' = fold (\<lambda>c t. snd (applyChange sys repo c t)) cs fs
     \<and> (\<forall>i < length cs.
           fst (applyChange sys repo (cs ! i)
                  (fold (\<lambda>c t. snd (applyChange sys repo c t)) (take i cs) fs)) = None)"
proof (induction cs arbitrary: fs)
  case Nil
  then show ?case by simp
next
  case (Cons c cs)
  obtain r fs1 where step: "applyChange sys repo c fs = (r, fs1)" by (cases "applyChange sys repo c fs")
  with Cons.prems have r: "r = None" and rest: "applyChanges sys repo cs fs1 = (None, fs')"
    by (auto split: option.splits)
  from Cons.IH[OF rest] step r show ?case
    by (auto simp: less_Suc_eq_0_disj)
qed

text \<open>
  Claim C1, as the code has it. For a request in the table, \<open>ApproveAndApply\<close> first
  reads the status: when it is not \<open>pending\<close> the call fails with the error that names the
  status, and nothing changes, neither the status nor the working tree. When it is
  \<open>pending\<close>, the changes are applied in list order, each to the tree the one before has
  left. The status becomes \<open>approved\<close> only after the last change has been applied: when
  a change fails, the call returns that error, the tree keeps what has been written so
  far and the status is still \<open>pending\<close>.
\<close>

theorem approve_applies_then_flips:
  assumes "GetRequest rid w = Some a" and "a < length (objs w)"
  shows "(Status (load w a) \<noteq> ''pending'' \<longrightarrow>
            ApproveAndApply sys rid w = (Some (NotPending (Status (load w a))), w))
       \<and> (Status (load w a) = ''pending'' \<longrightarrow>
            (\<forall>fs'. applyChanges sys (repoPath w) (Changes (load w a)) (tree w) = (None, fs') \<longrightarrow>
                fst (ApproveAndApply sys rid w) = None
              \<and> statusOf (snd (ApproveAndApply sys rid w)) rid = Some ''approved''
              \<and> tree (snd (ApproveAndApply sys rid w)) = fs'
              \<and> fs' = fold (\<lambda>c t. snd (applyChange sys (repoPath w) c t))
                         (Changes (load w a)) (tree w))
          \<and> (\<forall>err fs'. applyChanges sys (repoPath w) (Changes (load w a)) (tree w) = (Some err, fs') \<longrightarrow>
                ApproveAndApply sys rid w = (Some err, w\<lparr>tree := fs'\<rparr>)
              \<and> statusOf (snd (ApproveAndApply sys rid w)) rid = Some ''pending''))"
  using assms
  by (auto simp: ApproveAndApply_def GetRequest_def load_def statusOf_def Let_def
      dest: applyChanges_fold)


theorem approve_applies_then_flips_witness:
  "ApproveAndApply sampleSys ''0a1b2c3d-0000'' (sampleWorld ''approved'')
     = (Some (NotPending ''approved''), sampleWorld ''approved'')
   \<and> fst (ApproveAndApply sampleSys ''0a1b2c3d-0000'' (sampleWorld ''pending'')) = None
   \<and> statusOf (snd (ApproveAndApply sampleSys ''0a1b2c3d-0000'' (sampleWorld ''pending'')))
         ''0a1b2c3d-0000'' = Some ''approved''
   \<and> tree (snd (ApproveAndApply sampleSys ''0a1b2c3d-0000'' (sampleWorld ''pending'')))
         = [(''/repo/src/x.go'', ''package x'')]
   \<and> fst (ApproveAndApply lockedSys ''0a1b2c3d-0000'' (sampleWorld ''pending''))
         = Some (WriteFailed ''src/x.go'' ''permission denied'')
   \<and> statusOf (snd (ApproveAndApply lockedSys ''0a1b2c3d-0000'' (sampleWorld ''pending'')))
         ''0a1b2c3d-0000'' = Some ''pending''"
proof -
  have g: "GetRequest ''0a1b2c3d-0000'' (sampleWorld st) = Some 0" for st
    by (simp add: GetRequest_def sampleWorld_def)
  have l: "0 < length (objs (sampleWorld st))" for st
    by (simp add: sampleWorld_def)
  have s: "Status (load (sampleWorld st) 0) = st" for st
    by (simp add: load_def sampleWorld_def sampleRequest_def)
  have ok: "applyChanges sampleSys (repoPath (sampleWorld ''pending''))
              (Changes (load (sampleWorld ''pending'') 0)) (tree (sampleWorld ''pending''))
            = (None, [(''/repo/src/x.go'', ''package x'')])"
    by (simp add: load_def applyChange_def sample_defs)
  have ko: "applyChanges lockedSys (repoPath (sampleWorld ''pending''))
              (Changes (load (sampleWorld ''pending'') 0)) (tree (sampleWorld ''pending''))
            = (Some (WriteFailed ''src/x.go'' ''permission denied''), [])"
    by (simp add: load_def applyChange_def sample_defs)
  note T = approve_applies_then_flips [OF g l]
  have A: "ApproveAndApply sampleSys ''0a1b2c3d-0000'' (sampleWorld ''approved'')
             = (Some (NotPending ''approved''), sampleWorld ''approved'')"
    using T [of "''approved''" sampleSys] by (simp add: s)
  have B: "fst (ApproveAndApply sampleSys ''0a1b2c3d-0000'' (sampleWorld ''pending'')) = None
      \<and> statusOf (snd (ApproveAndApply sampleSys ''0a1b2c3d-0000'' (sampleWorld ''pending'')))
            ''0a1b2c3d-0000'' = Some ''approved''
      \<and> tree (snd (ApproveAndApply sampleSys ''0a1b2c3d-0000'' (sampleWorld ''pending'')))
            = [(''/repo/src/x.go'', ''package x'')]"
    using T [of "''pending''" sampleSys] s [of "''pending''"] ok by blast
  have C: "fst (ApproveAndApply lockedSys ''0a1b2c3d-0000'' (sampleWorld ''pending''))
            = Some (WriteFailed ''src/x.go'' ''permission denied'')
      \<and> statusOf (snd (ApproveAndApply lockedSys ''0a1b2c3d-0000'' (sampleWorld ''pending'')))
            ''0a1b2c3d-0000'' = Some ''pending''"
    using T [of "''pending''" lockedSys] s [of "''pending''"] ko by (metis fst_conv)
  from A B C show ?thesis by blast
qed

text \<open>
  Against claim C1 as stated, which flips the status before it applies the changes: the
  sample request is pending and its file cannot be written. The call gets past the
  status check and fails in the write; the status it leaves is \<open>pending\<close>, not
  \<open>approved\<close>.
\<close>

theorem approve_failed_write_stays_pending:
  "statusOf (sampleWorld ''pending'') ''0a1b2c3d-0000'' = Some ''pending''
   \<and> fst (ApproveAndApply lockedSys ''0a1b2c3d-0000'' (sampleWorld ''pending''))
        = Some (WriteFailed ''src/x.go'' ''permission denied'')
   \<and> statusOf (snd (ApproveAndApply lockedSys ''0a1b2c3d-0000'' (sampleWorld ''pending'')))
        ''0a1b2c3d-0000'' = Some ''pending''
   \<and> statusOf (snd (ApproveAndApply lockedSys ''0a1b2c3d-0000'' (sampleWorld ''pending'')))
        ''0a1b2c3d-0000'' \<noteq> Some ''approved''"
  by (simp add: ApproveAndApply_def applyChange_def statusOf_def GetRequest_def load_def sample_defs)

subsection \<open>Rejecting\<close>

lemma Reject_unknown: "GetRequest rid w = None \<Longrightarrow> Reject rid w = (Some (NotFound rid), w)"
  by (simp add: Reject_def GetRequest_def)

lemma Reject_any_status:
  "GetRequest rid w = Some a \<Longrightarrow> a < length (objs w) \<Longrightarrow>
     fst (Reject rid w) = None \<and> statusOf (snd (Reject rid w)) rid = Some ''rejected''"
  by (simp add: Reject_def GetRequest_def statusOf_def load_def)

text \<open>
  Claim C2 at a request that has been approved: \<open>Reject\<close> does not look at the status.
  It returns no error and the approved request is rejected afterwards.
\<close>

theorem reject_overwrites_approved:
  "fst (Reject ''0a1b2c3d-0000'' (sampleWorld ''approved'')) = None
   \<and> statusOf (sampleWorld ''approved'') ''0a1b2c3d-0000'' = Some ''approved''
   \<and> statusOf (snd (Reject ''0a1b2c3d-0000'' (sampleWorld ''approved''))) ''0a1b2c3d-0000''
        = Some ''rejected''"
  by (simp add: Reject_def statusOf_def GetRequest_def load_def sampleWorld_def sampleRequest_def)

subsection \<open>History\<close>

lemma erase_status_update:
  "map (\<lambda>a. (xs[i := (xs ! i)\<lparr>Status := st\<rparr>] ! a)\<lparr>Status := []\<rparr>) as
     = map (\<lambda>a. (xs ! a)\<lparr>Status := []\<rparr>) as"
proof (rule map_cong [OF refl])
  fix a
  show "(xs[i := (xs ! i)\<lparr>Status := st\<rparr>] ! a)\<lparr>Status := []\<rparr> = (xs ! a)\<lparr>Status := []\<rparr>"
  proof (cases "i < length xs \<and> a = i")
    case True
    then show ?thesis by simp
  next
    case False
    then have "xs[i := (xs ! i)\<lparr>Status := st\<rparr>] ! a = xs ! a"
      by (cases "i < length xs") (auto simp: list_update_beyond)
    then show ?thesis by simp
  qed
qed

lemma Reject_keeps_history:
  "History (snd (Reject rid w)) = History w
   \<and> map (\<lambda>cr. cr\<lparr>Status := []\<rparr>) (historyView (snd (Reject rid w)))
       = map (\<lambda>cr. cr\<lparr>Status := []\<rparr>) (historyView w)"
  by (auto simp: Reject_def History_def historyView_def load_def o_def erase_status_update
      split: option.splits)

lemma ApproveAndApply_keeps_history:
  "History (snd (ApproveAndApply sys rid w)) = History w
   \<and> map (\<lambda>cr. cr\<lparr>Status := []\<rparr>) (historyView (snd (ApproveAndApply sys rid w)))
       = map (\<lambda>cr. cr\<lparr>Status := []\<rparr>) (historyView w)"
  by (auto simp: ApproveAndApply_def Let_def History_def historyView_def load_def o_def
      erase_status_update split: option.splits prod.splits)

lemma GenerateChanges_appends:
  assumes "GenerateChanges sys llm userRequest uuid now w = (Inr a, w')"
  shows "History w' = History w @ [a] \<and> GetRequest uuid w' = Some a
       \<and> (\<forall>b < length (objs w). load w' b = load w b)
       \<and> Status (load w' a) = ''pending''"
  using GenerateChanges_cases [OF assms]
  by (auto simp: History_def GetRequest_def load_def nth_append)

text \<open>
  Claim C3, as the code has it. The history holds pointers. \<open>Reject\<close> and
  \<open>ApproveAndApply\<close> leave the slice as it is, and with it the number and the order of
  the entries; they change no field of an entry but the status. \<open>GenerateChanges\<close> appends
  one pointer, the same that it stores in the request table, to a request that is
  pending. An entry of the history is therefore the live request and not a copy of it:
  after \<open>Reject\<close> the object behind the pointer, read through the history or through the
  table, has the status \<open>rejected\<close>.
\<close>

theorem history_shares_live_requests:
  "History (snd (Reject rid w)) = History w
   \<and> History (snd (ApproveAndApply sys rid w)) = History w
   \<and> map (\<lambda>cr. cr\<lparr>Status := []\<rparr>) (historyView (snd (Reject rid w)))
       = map (\<lambda>cr. cr\<lparr>Status := []\<rparr>) (historyView w)
   \<and> map (\<lambda>cr. cr\<lparr>Status := []\<rparr>) (historyView (snd (ApproveAndApply sys rid w)))
       = map (\<lambda>cr. cr\<lparr>Status := []\<rparr>) (historyView w)
   \<and> (\<forall>a w'. wf_world w \<and> GenerateChanges sys llm userRequest uuid now w = (Inr a, w') \<longrightarrow>
         History w' = History w @ [a] \<and> GetRequest uuid w' = Some a
       \<and> historyView w' = historyView w @ [load w' a]
       \<and> Status (load w' a) = ''pending'')
   \<and> (\<forall>a. GetRequest rid w = Some a \<and> a < length (objs w) \<longrightarrow>
         load (snd (Reject rid w)) a = (load w a)\<lparr>Status := ''rejected''\<rparr>)"
proof -
  have gen: "History w' = History w @ [a] \<and> GetRequest uuid w' = Some a
       \<and> historyView w' = historyView w @ [load w' a]
       \<and> Status (load w' a) = ''pending''"
    if wf: "wf_world w" and g: "GenerateChanges sys llm userRequest uuid now w = (Inr a, w')"
    for a w'
  proof -
    note G = GenerateChanges_appends [OF g]
    have "map (load w') (History w) = map (load w) (History w)"
    proof (rule map_cong [OF refl])
      fix b assume "b \<in> set (History w)"
      then have "b < length (objs w)" using wf by (simp add: wf_world_def History_def)
      then show "load w' b = load w b" using G by simp
    qed
    then show ?thesis using G by (simp add: historyView_def)
  qed
  have rej: "load (snd (Reject rid w)) a = (load w a)\<lparr>Status := ''rejected''\<rparr>"
    if "GetRequest rid w = Some a \<and> a < length (objs w)" for a
    using that by (simp add: Reject_def GetRequest_def load_def)
  show ?thesis
    using Reject_keeps_history [of rid w] ApproveAndApply_keeps_history [of sys rid w] gen rej
    by blast
qed

theorem history_shares_live_requests_witness:
  "wf_world (NewEngine ''/repo'' ([] :: memfs))
   \<and> GenerateChanges sampleSys sampleLLM ''please add a module X'' ''0a1b2c3d-0000'' 7
        (NewEngine ''/repo'' []) = (Inr 0, sampleWorld ''pending'')
   \<and> History (sampleWorld ''pending'') = History (NewEngine ''/repo'' ([] :: memfs)) @ [0]
   \<and> GetRequest ''0a1b2c3d-0000'' (sampleWorld ''pending'') = Some 0
   \<and> (0::nat) < length (objs (sampleWorld ''pending''))
   \<and> load (snd (Reject ''0a1b2c3d-0000'' (sampleWorld ''pending''))) 0
        = (load (sampleWorld ''pending'') 0)\<lparr>Status := ''rejected''\<rparr>"
proof -
  have g: "GetRequest ''0a1b2c3d-0000'' (sampleWorld ''pending'') = Some 0"
    by (simp add: GetRequest_def sampleWorld_def)
  have l: "(0::nat) < length (objs (sampleWorld ''pending''))"
    by (simp add: sampleWorld_def)
  have a: "History (sampleWorld ''pending'') = History (NewEngine ''/repo'' ([] :: memfs)) @ [0]"
    using history_shares_live_requests
      [of "''0a1b2c3d-0000''" "NewEngine ''/repo'' ([] :: memfs)" sampleSys sampleLLM
          "''please add a module X''" "''0a1b2c3d-0000''" 7]
      wf_NewEngine [of "''/repo''" "[] :: memfs"] sample_generate
    by blast
  have r: "load (snd (Reject ''0a1b2c3d-0000'' (sampleWorld ''pending''))) 0
        = (load (sampleWorld ''pending'') 0)\<lparr>Status := ''rejected''\<rparr>"
    using history_shares_live_requests
      [of "''0a1b2c3d-0000''" "sampleWorld ''pending''" sampleSys sampleLLM
          "''please add a module X''" "''0a1b2c3d-0000''" 7] g l
    by blast
  show ?thesis by (intro conjI wf_NewEngine sample_generate a g l r)
qed

text \<open>
  Against claim C3 as stated: the sample request is created pending, and that is what
  the history shows then. After \<open>Reject\<close>, and likewise after \<open>ApproveAndApply\<close>, the
  history shows the same entry with the new status.
\<close>

theorem history_shows_later_status:
  "GenerateChanges sampleSys sampleLLM ''please add a module X'' ''0a1b2c3d-0000'' 7
     (NewEngine ''/repo'' []) = (Inr 0, sampleWorld ''pending'')
   \<and> map Status (historyView (sampleWorld ''pending'')) = [''pending'']
   \<and> map Status (historyView (snd (Reject ''0a1b2c3d-0000'' (sampleWorld ''pending''))))
        = [''rejected'']
   \<and> map Status (historyView (snd (ApproveAndApply sampleSys ''0a1b2c3d-0000''
                                      (sampleWorld ''pending'')))) = [''approved'']"
proof -
  have "map Status (historyView (sampleWorld ''pending'')) = [''pending'']"
    by (simp add: historyView_def History_def load_def sampleWorld_def sampleRequest_def)
  moreover have "map Status (historyView (snd (Reject ''0a1b2c3d-0000'' (sampleWorld ''pending''))))
        = [''rejected'']"
    by (simp add: Reject_def historyView_def History_def load_def sampleWorld_def sampleRequest_def)
  moreover have "map Status (historyView (snd (ApproveAndApply sampleSys ''0a1b2c3d-0000''
                                      (sampleWorld ''pending'')))) = [''approved'']"
    by (simp add: ApproveAndApply_def applyChange_def historyView_def History_def load_def
        sample_defs)
  ultimately show ?thesis using sample_generate by blast
qed

subsection \<open>Generation\<close>

text \<open>
  Claim C4. When the model's answer has been decoded and one of the changes it proposes
  is invalid in the sense of the specification (its cleaned path is a protected path or
  lies under one, or has a parent-directory segment, or its action is none of
  \<open>create\<close>, \<open>modify\<close>, \<open>delete\<close>, or its content is longer than 1 MiB), then
  \<open>GenerateChanges\<close> returns a validation error and leaves the engine as it was: the
  request table and the history are unchanged.
\<close>

theorem generate_all_or_nothing:
  assumes "proposal sys llm userRequest w = Inr (description, changes)"
    and "c \<in> set changes" and "spec_invalid sys c"
  shows "\<exists>err. GenerateChanges sys llm userRequest uuid now w = (Inl (InvalidChange err), w)
             \<and> requests (snd (GenerateChanges sys llm userRequest uuid now w)) = requests w
             \<and> History (snd (GenerateChanges sys llm userRequest uuid now w)) = History w"
proof -
  have "validateChanges sys changes \<noteq> None"
    using assms(2,3) by (simp add: validateChanges_finds spec_invalid_rejected)
  then obtain err where "validateChanges sys changes = Some err" by blast
  then show ?thesis using assms(1) by (simp add: GenerateChanges_def)
qed

theorem generate_all_or_nothing_witness:
  "proposal (memSys [] (''two changes'', [sampleChange, dockerChange])) sampleLLM
      ''change the Dockerfile'' (NewEngine ''/repo'' [])
     = Inr (''two changes'', [sampleChange, dockerChange])
   \<and> dockerChange \<in> set [sampleChange, dockerChange]
   \<and> spec_invalid (memSys [] (''two changes'', [sampleChange, dockerChange])) dockerChange
   \<and> GenerateChanges (memSys [] (''two changes'', [sampleChange, dockerChange])) sampleLLM
        ''change the Dockerfile'' ''0a1b2c3d-0000'' 7 (NewEngine ''/repo'' [])
       = (Inl (InvalidChange (ProtectedPath ''./Dockerfile'')), NewEngine ''/repo'' [])"
proof -
  let ?sys = "memSys [] (''two changes'', [sampleChange, dockerChange])"
  have m: "dockerChange \<in> set [sampleChange, dockerChange]" by simp
  have i: "spec_invalid ?sys dockerChange"
    by (simp add: spec_invalid_def spec_under_protected_def dockerChange_def protectedPaths_def
        memSys_def unixClean_def)
  have v1: "validateChange ?sys sampleChange = None"
    by (simp add: validateChange_def protectedPaths_def HasPrefix_def sample_defs)
  have v2: "validateChange ?sys dockerChange = Some (ProtectedPath ''./Dockerfile'')"
    by (simp add: validateChange_def protectedPaths_def HasPrefix_def dockerChange_def
        memSys_def unixClean_def)
  have "\<exists>err. GenerateChanges ?sys sampleLLM ''change the Dockerfile'' ''0a1b2c3d-0000'' 7
                (NewEngine ''/repo'' []) = (Inl (InvalidChange err), NewEngine ''/repo'' [])"
    using generate_all_or_nothing [OF sample_proposal m i] by blast
  moreover have "fst (GenerateChanges ?sys sampleLLM ''change the Dockerfile'' ''0a1b2c3d-0000'' 7
                (NewEngine ''/repo'' [])) = Inl (InvalidChange (ProtectedPath ''./Dockerfile''))"
    by (simp add: GenerateChanges_def sample_proposal v1 v2)
  ultimately have "GenerateChanges ?sys sampleLLM ''change the Dockerfile'' ''0a1b2c3d-0000'' 7
        (NewEngine ''/repo'' [])
       = (Inl (InvalidChange (ProtectedPath ''./Dockerfile'')), NewEngine ''/repo'' [])"
    by auto
  with sample_proposal m i show ?thesis by blast
qed

subsection \<open>Protected paths are matched as prefixes\<close>

text \<open>
  Claim C9. Whenever the cleaned path of a change begins with the characters of an entry
  of the protected set, whatever comes after them, \<open>validateChange\<close> rejects the change
  with the protected-path error.
\<close>

theorem protected_paths_match_by_prefix:
  assumes "protected \<in> set protectedPaths"
    and "Clean sys (Path change) = protected @ rest"
  shows "validateChange sys change = Some (ProtectedPath (Path change))"
  using assms by (simp add: protected_prefix_rejected)

text \<open>
  \<open>Dockerfile.backup\<close> and \<open>fly.toml.bak\<close> are rejected, although neither is a protected
  path nor lies under one.
\<close>

theorem protected_paths_match_by_prefix_witness:
  "''Dockerfile'' \<in> set protectedPaths
   \<and> Clean sampleSys ''Dockerfile.backup'' = ''Dockerfile'' @ ''.backup''
   \<and> validateChange sampleSys
        \<lparr>Path = ''Dockerfile.backup'', Action = ''create'', NewContent = ''x''\<rparr>
       = Some (ProtectedPath ''Dockerfile.backup'')
   \<and> \<not> spec_under_protected ''Dockerfile.backup''
   \<and> ''fly.toml'' \<in> set protectedPaths
   \<and> Clean sampleSys ''fly.toml.bak'' = ''fly.toml'' @ ''.bak''
   \<and> validateChange sampleSys
        \<lparr>Path = ''fly.toml.bak'', Action = ''create'', NewContent = ''x''\<rparr>
       = Some (ProtectedPath ''fly.toml.bak'')
   \<and> \<not> spec_under_protected ''fly.toml.bak''"
proof -
  have d: "''Dockerfile'' \<in> set protectedPaths" and f: "''fly.toml'' \<in> set protectedPaths"
    by (simp_all add: protectedPaths_def)
  have cd: "Clean sampleSys (Path \<lparr>Path = ''Dockerfile.backup'', Action = ''create'',
                                  NewContent = ''x''\<rparr>) = ''Dockerfile'' @ ''.backup''"
    and cf: "Clean sampleSys (Path \<lparr>Path = ''fly.toml.bak'', Action = ''create'',
                                  NewContent = ''x''\<rparr>) = ''fly.toml'' @ ''.bak''"
    by (simp_all add: sample_defs)
  have nd: "\<not> spec_under_protected ''Dockerfile.backup''"
    and nf: "\<not> spec_under_protected ''fly.toml.bak''"
    by (simp_all add: spec_under_protected_def protectedPaths_def HasPrefix_def)
  from protected_paths_match_by_prefix [OF d cd] protected_paths_match_by_prefix [OF f cf]
    d f cd cf nd nf
  show ?thesis by simp
qed

section \<open>Properties of the hub and of the session handler\<close>

subsection \<open>Sending\<close>

text \<open>
  Claim C7. For an envelope that \<open>json.Marshal\<close> encodes and a client whose channel is
  open: when the buffer of the channel is full, \<open>Send\<close> returns \<open>ErrSendBufferFull\<close> and
  the buffer is unchanged, so the message is dropped; when there is room, \<open>Send\<close> puts
  the encoded envelope at the end of the buffer and returns no error. \<open>Send\<close> is a total
  function: it returns in both cases and never waits.
\<close>

theorem send_full_fails_room_enqueues:
  assumes "marshal env = Inr data" and "\<not> closed c"
  shows "(sendCap \<le> length (send c) \<longrightarrow> Send marshal env c = (ErrSendBufferFull, c))
       \<and> (length (send c) < sendCap \<longrightarrow>
            Send marshal env c = (SendOk, c\<lparr>send := send c @ [data]\<rparr>))"
  using assms by (simp add: Send_def)

theorem send_full_fails_room_enqueues_witness:
  "sampleMarshal pingEnvelope = Inr ''test.ping {}''
   \<and> \<not> closed fullClient \<and> sendCap \<le> length (send fullClient)
   \<and> Send sampleMarshal pingEnvelope fullClient = (ErrSendBufferFull, fullClient)
   \<and> \<not> closed idleClient \<and> length (send idleClient) < sendCap
   \<and> Send sampleMarshal pingEnvelope idleClient
       = (SendOk, idleClient\<lparr>send := [''m'', ''test.ping {}'']\<rparr>)"
proof -
  have m: "sampleMarshal pingEnvelope = Inr ''test.ping {}''"
    by (simp add: sampleMarshal_def pingEnvelope_def)
  have f: "\<not> closed fullClient" and fl: "sendCap \<le> length (send fullClient)"
    by (simp_all add: fullClient_def sendCap_def)
  have i: "\<not> closed idleClient" and il: "length (send idleClient) < sendCap"
    and ia: "send idleClient @ [''test.ping {}''] = [''m'', ''test.ping {}'']"
    by (simp_all add: idleClient_def sendCap_def)
  from send_full_fails_room_enqueues
      [of sampleMarshal pingEnvelope "''test.ping {}''" fullClient, OF m f]
    send_full_fails_room_enqueues
      [of sampleMarshal pingEnvelope "''test.ping {}''" idleClient, OF m i]
    m f fl i il ia
  show ?thesis by simp
qed

lemma Send_marshal_error: "marshal env = Inl err \<Longrightarrow> Send marshal env c = (MarshalFailed err, c)"
  by (simp add: Send_def)

subsection \<open>The publish sequence\<close>

lemma approveTask_stops: "stopsAtError (trace (approveTask sys cd rid h))"
  by (auto simp: approveTask_def commitPushPR_def sendStatus_def Let_def
      split: option.splits prod.splits sum.splits)

lemma publish_branch_failure:
  assumes "engine h = Some eng" and "gitSvc h = Some git" and "ghClient h = Some gh"
    and "GetRequest rid eng = Some a" and "8 \<le> length rid"
    and "CreateBranch git (''selfmod/'' @ take 8 rid) (tree eng) = (Some err, fs1)"
  shows "trace (approveTask sys cd rid h) =
           [sendStatus rid ''pushing'' msgCreatingBranch [],
            CallCreateBranch (''selfmod/'' @ take 8 rid),
            sendStatus rid ''error'' (msgBranchFailed @ err) []]"
  using assms by (simp add: approveTask_def Let_def)

lemma publish_apply_failure:
  assumes "engine h = Some eng" and "gitSvc h = Some git" and "ghClient h = Some gh"
    and "GetRequest rid eng = Some a" and "8 \<le> length rid"
    and "CreateBranch git (''selfmod/'' @ take 8 rid) (tree eng) = (None, fs1)"
    and "ApproveAndApply sys rid (eng\<lparr>tree := fs1\<rparr>) = (Some err, eng1)"
  shows "trace (approveTask sys cd rid h) =
           [sendStatus rid ''pushing'' msgCreatingBranch [],
            CallCreateBranch (''selfmod/'' @ take 8 rid),
            sendStatus rid ''applying'' msgApplying [],
            CallApproveAndApply rid,
            sendStatus rid ''error'' (msgApplyFailed @ ErrorText cd err) []]"
  using assms by (simp add: approveTask_def Let_def)

lemma publish_commit_failure:
  assumes "engine h = Some eng" and "gitSvc h = Some git" and "ghClient h = Some gh"
    and "GetRequest rid eng = Some a" and "8 \<le> length rid"
    and "CreateBranch git (''selfmod/'' @ take 8 rid) (tree eng) = (None, fs1)"
    and "ApproveAndApply sys rid (eng\<lparr>tree := fs1\<rparr>) = (None, eng1)"
    and "CommitAll git (''selfmod: '' @ Description (load eng1 a)) (tree eng1) = (Inl err, fs2)"
  shows "trace (approveTask sys cd rid h) =
           [sendStatus rid ''pushing'' msgCreatingBranch [],
            CallCreateBranch (''selfmod/'' @ take 8 rid),
            sendStatus rid ''applying'' msgApplying [],
            CallApproveAndApply rid,
            sendStatus rid ''pushing'' msgCommitting [],
            CallCommitAll (''selfmod: '' @ Description (load eng1 a)),
            sendStatus rid ''error'' (msgCommitFailed @ err) []]"
  using assms by (simp add: approveTask_def commitPushPR_def Let_def)

lemma publish_success:
  assumes "engine h = Some eng" and "gitSvc h = Some git" and "ghClient h = Some gh"
    and "GetRequest rid eng = Some a" and "8 \<le> length rid"
    and "CreateBranch git (''selfmod/'' @ take 8 rid) (tree eng) = (None, fs1)"
    and "ApproveAndApply sys rid (eng\<lparr>tree := fs1\<rparr>) = (None, eng1)"
    and "CommitAll git (''selfmod: '' @ Description (load eng1 a)) (tree eng1) = (Inr hash, fs2)"
    and "Push git (''selfmod/'' @ take 8 rid) fs2 = (None, fs3)"
    and "CreatePR gh (''[selfmod] '' @ Description (load eng1 a))
           (''## Self-Modification Request\<newline>\<newline>'' @ Description (load eng1 a)
              @ ''\<newline>\<newline>Generated by FlyAGI self-modification engine.'')
           (''selfmod/'' @ take 8 rid) ''main'' = Inr url"
  shows "statuses (trace (approveTask sys cd rid h))
           = [''pushing'', ''applying'', ''pushing'', ''pr_created'']"
  using assms by (simp add: approveTask_def commitPushPR_def sendStatus_def Let_def)

lemma publish_pr_failure:
  assumes "engine h = Some eng" and "gitSvc h = Some git" and "ghClient h = Some gh"
    and "GetRequest rid eng = Some a" and "8 \<le> length rid"
    and "CreateBranch git (''selfmod/'' @ take 8 rid) (tree eng) = (None, fs1)"
    and "ApproveAndApply sys rid (eng\<lparr>tree := fs1\<rparr>) = (None, eng1)"
    and "CommitAll git (''selfmod: '' @ Description (load eng1 a)) (tree eng1) = (Inr hash, fs2)"
    and "Push git (''selfmod/'' @ take 8 rid) fs2 = (None, fs3)"
    and "CreatePR gh (''[selfmod] '' @ Description (load eng1 a))
           (''## Self-Modification Request\<newline>\<newline>'' @ Description (load eng1 a)
              @ ''\<newline>\<newline>Generated by FlyAGI self-modification engine.'')
           (''selfmod/'' @ take 8 rid) ''main'' = Inl err"
  shows "trace (approveTask sys cd rid h) =
           [sendStatus rid ''pushing'' msgCreatingBranch [],
            CallCreateBranch (''selfmod/'' @ take 8 rid),
            sendStatus rid ''applying'' msgApplying [],
            CallApproveAndApply rid,
            sendStatus rid ''pushing'' msgCommitting [],
            CallCommitAll (''selfmod: '' @ Description (load eng1 a)),
            CallPush (''selfmod/'' @ take 8 rid),
            CallCreatePR (''[selfmod] '' @ Description (load eng1 a))
              (''## Self-Modification Request\<newline>\<newline>'' @ Description (load eng1 a)
                 @ ''\<newline>\<newline>Generated by FlyAGI self-modification engine.'')
              (''selfmod/'' @ take 8 rid) ''main'',
            sendStatus rid ''error'' (msgPRFailed @ err) []]"
  using assms by (simp add: approveTask_def commitPushPR_def Let_def)

lemma push_step_failure_trace:
  assumes "engine h = Some eng" and "gitSvc h = Some git" and "ghClient h = Some gh"
    and "GetRequest rid eng = Some a" and "8 \<le> length rid"
    and "CreateBranch git (''selfmod/'' @ take 8 rid) (tree eng) = (None, fs1)"
    and "ApproveAndApply sys rid (eng\<lparr>tree := fs1\<rparr>) = (None, eng1)"
    and "CommitAll git (''selfmod: '' @ Description (load eng1 a)) (tree eng1) = (Inr hash, fs2)"
    and "Push git (''selfmod/'' @ take 8 rid) fs2 = (Some err, fs3)"
  shows "trace (approveTask sys cd rid h) =
           [sendStatus rid ''pushing'' msgCreatingBranch [],
            CallCreateBranch (''selfmod/'' @ take 8 rid),
            sendStatus rid ''applying'' msgApplying [],
            CallApproveAndApply rid,
            sendStatus rid ''pushing'' msgCommitting [],
            CallCommitAll (''selfmod: '' @ Description (load eng1 a)),
            CallPush (''selfmod/'' @ take 8 rid),
            sendStatus rid ''error'' (msgPushFailed @ err) []]"
    and "\<not> panicked (approveTask sys cd rid h)"
  using assms by (simp_all add: approveTask_def commitPushPR_def Let_def)

text \<open>
  Claim C5. Version control is configured, the request is in the table, and its
  identifier has the eight bytes the branch name is cut from. When the branch is
  created, the changes are applied and committed, and the push fails, the goroutine of
  \<open>handleSelfModApprove\<close> makes these calls and sends these envelopes, in this order:
  status \<open>pushing\<close>, create the branch, status \<open>applying\<close>, apply, status \<open>pushing\<close>,
  commit, push, status \<open>error\<close>. No pull request is asked for and \<open>pr_created\<close> is not
  sent. Each step that fails halts the sequence: when the creation of the branch, the
  application of the changes, the commit, the push or the pull request is the first
  step to fail, the trace is the calls and envelopes up to that step followed by one
  \<open>error\<close> status that carries the step's error, and nothing else; no later step is
  called. In every run of the goroutine an \<open>error\<close> status is the last event.
\<close>

theorem publish_push_failure:
  assumes "engine (h :: 'fs ChatHandler) = Some eng"
    and "gitSvc h = Some git" and "ghClient h = Some gh"
    and "GetRequest rid eng = Some a" and "8 \<le> length rid"
  shows
   "(\<forall>fs1 eng1 hash fs2 err fs3.
        CreateBranch git (''selfmod/'' @ take 8 rid) (tree eng) = (None, fs1)
      \<and> ApproveAndApply sys rid (eng\<lparr>tree := fs1\<rparr>) = (None, eng1)
      \<and> CommitAll git (''selfmod: '' @ Description (load eng1 a)) (tree eng1) = (Inr hash, fs2)
      \<and> Push git (''selfmod/'' @ take 8 rid) fs2 = (Some err, fs3)
      \<longrightarrow> trace (approveTask sys cd rid h) =
            [sendStatus rid ''pushing'' msgCreatingBranch [],
             CallCreateBranch (''selfmod/'' @ take 8 rid),
             sendStatus rid ''applying'' msgApplying [],
             CallApproveAndApply rid,
             sendStatus rid ''pushing'' msgCommitting [],
             CallCommitAll (''selfmod: '' @ Description (load eng1 a)),
             CallPush (''selfmod/'' @ take 8 rid),
             sendStatus rid ''error'' (msgPushFailed @ err) []]
        \<and> statuses (trace (approveTask sys cd rid h))
            = [''pushing'', ''applying'', ''pushing'', ''error'']
        \<and> ''pr_created'' \<notin> set (statuses (trace (approveTask sys cd rid h)))
        \<and> \<not> panicked (approveTask sys cd rid h))
    \<and> (\<forall>err fs1.
        CreateBranch git (''selfmod/'' @ take 8 rid) (tree eng) = (Some err, fs1)
      \<longrightarrow> trace (approveTask sys cd rid h) =
            [sendStatus rid ''pushing'' msgCreatingBranch [],
             CallCreateBranch (''selfmod/'' @ take 8 rid),
             sendStatus rid ''error'' (msgBranchFailed @ err) []])
    \<and> (\<forall>fs1 err eng1.
        CreateBranch git (''selfmod/'' @ take 8 rid) (tree eng) = (None, fs1)
      \<and> ApproveAndApply sys rid (eng\<lparr>tree := fs1\<rparr>) = (Some err, eng1)
      \<longrightarrow> trace (approveTask sys cd rid h) =
            [sendStatus rid ''pushing'' msgCreatingBranch [],
             CallCreateBranch (''selfmod/'' @ take 8 rid),
             sendStatus rid ''applying'' msgApplying [],
             CallApproveAndApply rid,
             sendStatus rid ''error'' (msgApplyFailed @ ErrorText cd err) []])
    \<and> (\<forall>fs1 eng1 err fs2.
        CreateBranch git (''selfmod/'' @ take 8 rid) (tree eng) = (None, fs1)
      \<and> ApproveAndApply sys rid (eng\<lparr>tree := fs1\<rparr>) = (None, eng1)
      \<and> CommitAll git (''selfmod: '' @ Description (load eng1 a)) (tree eng1) = (Inl err, fs2)
      \<longrightarrow> trace (approveTask sys cd rid h) =
            [sendStatus rid ''pushing'' msgCreatingBranch [],
             CallCreateBranch (''selfmod/'' @ take 8 rid),
             sendStatus rid ''applying'' msgApplying [],
             CallApproveAndApply rid,
             sendStatus rid ''pushing'' msgCommitting [],
             CallCommitAll (''selfmod: '' @ Description (load eng1 a)),
             sendStatus rid ''error'' (msgCommitFailed @ err) []])
    \<and> (\<forall>fs1 eng1 hash fs2 fs3 err.
        CreateBranch git (''selfmod/'' @ take 8 rid) (tree eng) = (None, fs1)
      \<and> ApproveAndApply sys rid (eng\<lparr>tree := fs1\<rparr>) = (None, eng1)
      \<and> CommitAll git (''selfmod: '' @ Description (load eng1 a)) (tree eng1) = (Inr hash, fs2)
      \<and> Push git (''selfmod/'' @ take 8 rid) fs2 = (None, fs3)
      \<and> CreatePR gh (''[selfmod] '' @ Description (load eng1 a))
           (''## Self-Modification Request\<newline>\<newline>'' @ Description (load eng1 a)
              @ ''\<newline>\<newline>Generated by FlyAGI self-modification engine.'')
           (''selfmod/'' @ take 8 rid) ''main'' = Inl err
      \<longrightarrow> trace (approveTask sys cd rid h) =
            [sendStatus rid ''pushing'' msgCreatingBranch [],
             CallCreateBranch (''selfmod/'' @ take 8 rid),
             sendStatus rid ''applying'' msgApplying [],
             CallApproveAndApply rid,
             sendStatus rid ''pushing'' msgCommitting [],
             CallCommitAll (''selfmod: '' @ Description (load eng1 a)),
             CallPush (''selfmod/'' @ take 8 rid),
             CallCreatePR (''[selfmod] '' @ Description (load eng1 a))
               (''## Self-Modification Request\<newline>\<newline>'' @ Description (load eng1 a)
                  @ ''\<newline>\<newline>Generated by FlyAGI self-modification engine.'')
               (''selfmod/'' @ take 8 rid) ''main'',
             sendStatus rid ''error'' (msgPRFailed @ err) []])
    \<and> (\<forall>sys' cd' rid' h'.
          stopsAtError (trace (approveTask sys' cd' rid' (h' :: 'fs ChatHandler))))"
proof -
  note cfg = assms
  have push: "trace (approveTask sys cd rid h) =
            [sendStatus rid ''pushing'' msgCreatingBranch [],
             CallCreateBranch (''selfmod/'' @ take 8 rid),
             sendStatus rid ''applying'' msgApplying [],
             CallApproveAndApply rid,
             sendStatus rid ''pushing'' msgCommitting [],
             CallCommitAll (''selfmod: '' @ Description (load eng1 a)),
             CallPush (''selfmod/'' @ take 8 rid),
             sendStatus rid ''error'' (msgPushFailed @ err) []]
        \<and> statuses (trace (approveTask sys cd rid h))
            = [''pushing'', ''applying'', ''pushing'', ''error'']
        \<and> ''pr_created'' \<notin> set (statuses (trace (approveTask sys cd rid h)))
        \<and> \<not> panicked (approveTask sys cd rid h)"
    if "CreateBranch git (''selfmod/'' @ take 8 rid) (tree eng) = (None, fs1)
      \<and> ApproveAndApply sys rid (eng\<lparr>tree := fs1\<rparr>) = (None, eng1)
      \<and> CommitAll git (''selfmod: '' @ Description (load eng1 a)) (tree eng1) = (Inr hash, fs2)
      \<and> Push git (''selfmod/'' @ take 8 rid) fs2 = (Some err, fs3)"
    for fs1 eng1 hash fs2 err fs3
  proof -
    from that have b: "CreateBranch git (''selfmod/'' @ take 8 rid) (tree eng) = (None, fs1)"
      and ap: "ApproveAndApply sys rid (eng\<lparr>tree := fs1\<rparr>) = (None, eng1)"
      and c: "CommitAll git (''selfmod: '' @ Description (load eng1 a)) (tree eng1) = (Inr hash, fs2)"
      and p: "Push git (''selfmod/'' @ take 8 rid) fs2 = (Some err, fs3)"
      by simp_all
    note t = push_step_failure_trace [OF cfg b ap c p, of cd]
    have s: "statuses (trace (approveTask sys cd rid h))
            = [''pushing'', ''applying'', ''pushing'', ''error'']"
      unfolding t(1) by (simp add: sendStatus_def)
    have n: "''pr_created'' \<notin> set (statuses (trace (approveTask sys cd rid h)))"
      unfolding s by simp
    show ?thesis by (intro conjI t s n)
  qed
  have branch: "trace (approveTask sys cd rid h) =
            [sendStatus rid ''pushing'' msgCreatingBranch [],
             CallCreateBranch (''selfmod/'' @ take 8 rid),
             sendStatus rid ''error'' (msgBranchFailed @ err) []]"
    if "CreateBranch git (''selfmod/'' @ take 8 rid) (tree eng) = (Some err, fs1)" for err fs1
    using publish_branch_failure [OF cfg that] .
  have applf: "trace (approveTask sys cd rid h) =
            [sendStatus rid ''pushing'' msgCreatingBranch [],
             CallCreateBranch (''selfmod/'' @ take 8 rid),
             sendStatus rid ''applying'' msgApplying [],
             CallApproveAndApply rid,
             sendStatus rid ''error'' (msgApplyFailed @ ErrorText cd err) []]"
    if "CreateBranch git (''selfmod/'' @ take 8 rid) (tree eng) = (None, fs1)
      \<and> ApproveAndApply sys rid (eng\<lparr>tree := fs1\<rparr>) = (Some err, eng1)"
    for fs1 err eng1
    using publish_apply_failure [OF cfg conjunct1 [OF that] conjunct2 [OF that]] .
  have commit: "trace (approveTask sys cd rid h) =
            [sendStatus rid ''pushing'' msgCreatingBranch [],
             CallCreateBranch (''selfmod/'' @ take 8 rid),
             sendStatus rid ''applying'' msgApplying [],
             CallApproveAndApply rid,
             sendStatus rid ''pushing'' msgCommitting [],
             CallCommitAll (''selfmod: '' @ Description (load eng1 a)),
             sendStatus rid ''error'' (msgCommitFailed @ err) []]"
    if "CreateBranch git (''selfmod/'' @ take 8 rid) (tree eng) = (None, fs1)
      \<and> ApproveAndApply sys rid (eng\<lparr>tree := fs1\<rparr>) = (None, eng1)
      \<and> CommitAll git (''selfmod: '' @ Description (load eng1 a)) (tree eng1) = (Inl err, fs2)"
    for fs1 eng1 err fs2
  proof -
    from that have b: "CreateBranch git (''selfmod/'' @ take 8 rid) (tree eng) = (None, fs1)"
      and ap: "ApproveAndApply sys rid (eng\<lparr>tree := fs1\<rparr>) = (None, eng1)"
      and c: "CommitAll git (''selfmod: '' @ Description (load eng1 a)) (tree eng1) = (Inl err, fs2)"
      by simp_all
    show ?thesis using publish_commit_failure [OF cfg b ap c] .
  qed
  have pullf: "trace (approveTask sys cd rid h) =
            [sendStatus rid ''pushing'' msgCreatingBranch [],
             CallCreateBranch (''selfmod/'' @ take 8 rid),
             sendStatus rid ''applying'' msgApplying [],
             CallApproveAndApply rid,
             sendStatus rid ''pushing'' msgCommitting [],
             CallCommitAll (''selfmod: '' @ Description (load eng1 a)),
             CallPush (''selfmod/'' @ take 8 rid),
             CallCreatePR (''[selfmod] '' @ Description (load eng1 a))
               (''## Self-Modification Request\<newline>\<newline>'' @ Description (load eng1 a)
                  @ ''\<newline>\<newline>Generated by FlyAGI self-modification engine.'')
               (''selfmod/'' @ take 8 rid) ''main'',
             sendStatus rid ''error'' (msgPRFailed @ err) []]"
    if "CreateBranch git (''selfmod/'' @ take 8 rid) (tree eng) = (None, fs1)
      \<and> ApproveAndApply sys rid (eng\<lparr>tree := fs1\<rparr>) = (None, eng1)
      \<and> CommitAll git (''selfmod: '' @ Description (load eng1 a)) (tree eng1) = (Inr hash, fs2)
      \<and> Push git (''selfmod/'' @ take 8 rid) fs2 = (None, fs3)
      \<and> CreatePR gh (''[selfmod] '' @ Description (load eng1 a))
           (''## Self-Modification Request\<newline>\<newline>'' @ Description (load eng1 a)
              @ ''\<newline>\<newline>Generated by FlyAGI self-modification engine.'')
           (''selfmod/'' @ take 8 rid) ''main'' = Inl err"
    for fs1 eng1 hash fs2 fs3 err
  proof -
    from that have b: "CreateBranch git (''selfmod/'' @ take 8 rid) (tree eng) = (None, fs1)"
      and ap: "ApproveAndApply sys rid (eng\<lparr>tree := fs1\<rparr>) = (None, eng1)"
      and c: "CommitAll git (''selfmod: '' @ Description (load eng1 a)) (tree eng1) = (Inr hash, fs2)"
      and p: "Push git (''selfmod/'' @ take 8 rid) fs2 = (None, fs3)"
      and r: "CreatePR gh (''[selfmod] '' @ Description (load eng1 a))
           (''## Self-Modification Request\<newline>\<newline>'' @ Description (load eng1 a)
              @ ''\<newline>\<newline>Generated by FlyAGI self-modification engine.'')
           (''selfmod/'' @ take 8 rid) ''main'' = Inl err"
      by simp_all
    show ?thesis using publish_pr_failure [OF cfg b ap c p r] .
  qed
  have u: "\<forall>sys' cd' rid' h'.
             stopsAtError (trace (approveTask sys' cd' rid' (h' :: 'fs ChatHandler)))"
    by (simp add: approveTask_stops)
  from push branch applf commit pullf u show ?thesis by blast
qed

lemma sample_apply:
  "ApproveAndApply sampleSys ''0a1b2c3d-0000'' (sampleWorld ''pending'') = (None, appliedWorld)"
  by (simp add: ApproveAndApply_def applyChange_def appliedWorld_def sample_defs)

lemma sample_apply_locked:
  "ApproveAndApply lockedSys ''0a1b2c3d-0000'' (sampleWorld ''pending'')
     = (Some (WriteFailed ''src/x.go'' ''permission denied''), sampleWorld ''pending'')"
  by (simp add: ApproveAndApply_def applyChange_def sample_defs)

lemma sample_handler_fields:
  "engine (sampleHandler git gh) = Some (sampleWorld ''pending'')"
  "gitSvc (sampleHandler git gh) = Some git"
  "ghClient (sampleHandler git gh) = Some gh"
  "GetRequest ''0a1b2c3d-0000'' (sampleWorld ''pending'') = Some 0"
  "8 \<le> length ''0a1b2c3d-0000''"
  by (simp_all add: sampleHandler_def GetRequest_def sampleWorld_def)

lemma sample_tree: "(sampleWorld ''pending'')\<lparr>tree := []\<rparr> = sampleWorld ''pending''"
  by (simp add: sampleWorld_def)

theorem publish_push_failure_witness:
  "statuses (trace (approveTask sampleSys sampleCodec ''0a1b2c3d-0000''
      (sampleHandler (sampleGit None None (Some ''remote rejected'')) (sampleGitHub None))))
     = [''pushing'', ''applying'', ''pushing'', ''error'']
   \<and> trace (approveTask sampleSys sampleCodec ''0a1b2c3d-0000''
      (sampleHandler (sampleGit (Some ''no HEAD'') None None) (sampleGitHub None)))
     = [sendStatus ''0a1b2c3d-0000'' ''pushing'' msgCreatingBranch [],
        CallCreateBranch ''selfmod/0a1b2c3d'',
        sendStatus ''0a1b2c3d-0000'' ''error'' (msgBranchFailed @ ''no HEAD'') []]
   \<and> trace (approveTask lockedSys sampleCodec ''0a1b2c3d-0000''
      (sampleHandler (sampleGit None None None) (sampleGitHub None)))
     = [sendStatus ''0a1b2c3d-0000'' ''pushing'' msgCreatingBranch [],
        CallCreateBranch ''selfmod/0a1b2c3d'',
        sendStatus ''0a1b2c3d-0000'' ''applying'' msgApplying [],
        CallApproveAndApply ''0a1b2c3d-0000'',
        sendStatus ''0a1b2c3d-0000'' ''error'' (msgApplyFailed @ ''engine error'') []]
   \<and> trace (approveTask sampleSys sampleCodec ''0a1b2c3d-0000''
      (sampleHandler (sampleGit None (Some ''nothing to commit'') None) (sampleGitHub None)))
     = [sendStatus ''0a1b2c3d-0000'' ''pushing'' msgCreatingBranch [],
        CallCreateBranch ''selfmod/0a1b2c3d'',
        sendStatus ''0a1b2c3d-0000'' ''applying'' msgApplying [],
        CallApproveAndApply ''0a1b2c3d-0000'',
        sendStatus ''0a1b2c3d-0000'' ''pushing'' msgCommitting [],
        CallCommitAll ''selfmod: add X'',
        sendStatus ''0a1b2c3d-0000'' ''error'' (msgCommitFailed @ ''nothing to commit'') []]
   \<and> last (trace (approveTask sampleSys sampleCodec ''0a1b2c3d-0000''
      (sampleHandler (sampleGit None None None) (sampleGitHub (Some ''422'')))))
     = sendStatus ''0a1b2c3d-0000'' ''error'' (msgPRFailed @ ''422'') []"
proof -
  note f = sample_handler_fields
  have d: "Description (load appliedWorld 0) = ''add X''" and tr: "tree appliedWorld = [(''/repo/src/x.go'', ''package x'')]"
    by (simp_all add: load_def appliedWorld_def sampleWorld_def sampleRequest_def)
  have ap: "ApproveAndApply sampleSys ''0a1b2c3d-0000'' ((sampleWorld ''pending'')\<lparr>tree := []\<rparr>)
             = (None, appliedWorld)"
    using sample_apply by (simp add: sample_tree)
  have apl: "ApproveAndApply lockedSys ''0a1b2c3d-0000'' ((sampleWorld ''pending'')\<lparr>tree := []\<rparr>)
             = (Some (WriteFailed ''src/x.go'' ''permission denied''), sampleWorld ''pending'')"
    using sample_apply_locked by (simp add: sample_tree)
  have br: "CreateBranch (sampleGit b c p) (''selfmod/'' @ take 8 ''0a1b2c3d-0000'')
              (tree (sampleWorld ''pending'')) = (b, [])" for b c p
    by (simp add: sampleGit_def sampleWorld_def)
  have co: "CommitAll (sampleGit b None p) (''selfmod: '' @ Description (load appliedWorld 0))
              (tree appliedWorld) = (Inr ''4f2a9c1e'', [(''/repo/src/x.go'', ''package x'')])" for b p
    by (simp add: sampleGit_def tr)
  have cof: "CommitAll (sampleGit b (Some e) p) (''selfmod: '' @ Description (load appliedWorld 0))
              (tree appliedWorld) = (Inl e, [(''/repo/src/x.go'', ''package x'')])" for b p e
    by (simp add: sampleGit_def tr)
  have pu: "Push (sampleGit b c p) (''selfmod/'' @ take 8 ''0a1b2c3d-0000'')
              [(''/repo/src/x.go'', ''package x'')] = (p, [(''/repo/src/x.go'', ''package x'')])" for b c p
    by (simp add: sampleGit_def)
  have crf: "CreatePR (sampleGitHub (Some e)) t b hd bs = Inl e" for e t b hd bs
    by (simp add: sampleGitHub_def)
  have et: "ErrorText sampleCodec e = ''engine error''" for e
    by (simp add: sampleCodec_def)
  have 1: "statuses (trace (approveTask sampleSys sampleCodec ''0a1b2c3d-0000''
      (sampleHandler (sampleGit None None (Some ''remote rejected'')) (sampleGitHub None))))
     = [''pushing'', ''applying'', ''pushing'', ''error'']"
    using publish_push_failure
        [where git = "sampleGit None None (Some ''remote rejected'')" and gh = "sampleGitHub None"
           and sys = sampleSys and cd = sampleCodec, OF f,
           THEN conjunct1, rule_format,
           OF conjI [OF br conjI [OF ap conjI [OF co pu]]]]
    by blast
  have 2: "trace (approveTask sampleSys sampleCodec ''0a1b2c3d-0000''
      (sampleHandler (sampleGit (Some ''no HEAD'') None None) (sampleGitHub None)))
     = [sendStatus ''0a1b2c3d-0000'' ''pushing'' msgCreatingBranch [],
        CallCreateBranch (''selfmod/'' @ take 8 ''0a1b2c3d-0000''),
        sendStatus ''0a1b2c3d-0000'' ''error'' (msgBranchFailed @ ''no HEAD'') []]"
    using publish_push_failure
        [where git = "sampleGit (Some ''no HEAD'') None None" and gh = "sampleGitHub None"
           and sys = sampleSys and cd = sampleCodec, OF f,
           THEN conjunct2, THEN conjunct1, rule_format,
           OF br]
    by blast
  have 3: "trace (approveTask lockedSys sampleCodec ''0a1b2c3d-0000''
      (sampleHandler (sampleGit None None None) (sampleGitHub None)))
     = [sendStatus ''0a1b2c3d-0000'' ''pushing'' msgCreatingBranch [],
        CallCreateBranch (''selfmod/'' @ take 8 ''0a1b2c3d-0000''),
        sendStatus ''0a1b2c3d-0000'' ''applying'' msgApplying [],
        CallApproveAndApply ''0a1b2c3d-0000'',
        sendStatus ''0a1b2c3d-0000'' ''error''
          (msgApplyFailed @ ErrorText sampleCodec (WriteFailed ''src/x.go'' ''permission denied'')) []]"
    using publish_push_failure
        [where git = "sampleGit None None None" and gh = "sampleGitHub None"
           and sys = lockedSys and cd = sampleCodec, OF f,
           THEN conjunct2, THEN conjunct2, THEN conjunct1, rule_format,
           OF conjI [OF br apl]]
    by blast
  have 4: "trace (approveTask sampleSys sampleCodec ''0a1b2c3d-0000''
      (sampleHandler (sampleGit None (Some ''nothing to commit'') None) (sampleGitHub None)))
     = [sendStatus ''0a1b2c3d-0000'' ''pushing'' msgCreatingBranch [],
        CallCreateBranch (''selfmod/'' @ take 8 ''0a1b2c3d-0000''),
        sendStatus ''0a1b2c3d-0000'' ''applying'' msgApplying [],
        CallApproveAndApply ''0a1b2c3d-0000'',
        sendStatus ''0a1b2c3d-0000'' ''pushing'' msgCommitting [],
        CallCommitAll (''selfmod: '' @ Description (load appliedWorld 0)),
        sendStatus ''0a1b2c3d-0000'' ''error'' (msgCommitFailed @ ''nothing to commit'') []]"
    using publish_push_failure
        [where git = "sampleGit None (Some ''nothing to commit'') None" and gh = "sampleGitHub None"
           and sys = sampleSys and cd = sampleCodec, OF f,
           THEN conjunct2, THEN conjunct2, THEN conjunct2, THEN conjunct1, rule_format,
           OF conjI [OF br conjI [OF ap cof]]]
    by blast
  have 5: "trace (approveTask sampleSys sampleCodec ''0a1b2c3d-0000''
      (sampleHandler (sampleGit None None None) (sampleGitHub (Some ''422''))))
     = [sendStatus ''0a1b2c3d-0000'' ''pushing'' msgCreatingBranch [],
        CallCreateBranch (''selfmod/'' @ take 8 ''0a1b2c3d-0000''),
        sendStatus ''0a1b2c3d-0000'' ''applying'' msgApplying [],
        CallApproveAndApply ''0a1b2c3d-0000'',
        sendStatus ''0a1b2c3d-0000'' ''pushing'' msgCommitting [],
        CallCommitAll (''selfmod: '' @ Description (load appliedWorld 0)),
        CallPush (''selfmod/'' @ take 8 ''0a1b2c3d-0000''),
        CallCreatePR (''[selfmod] '' @ Description (load appliedWorld 0))
          (''## Self-Modification Request\<newline>\<newline>'' @ Description (load appliedWorld 0)
             @ ''\<newline>\<newline>Generated by FlyAGI self-modification engine.'')
          (''selfmod/'' @ take 8 ''0a1b2c3d-0000'') ''main'',
        sendStatus ''0a1b2c3d-0000'' ''error'' (msgPRFailed @ ''422'') []]"
    using publish_push_failure
        [where git = "sampleGit None None None" and gh = "sampleGitHub (Some ''422'')"
           and sys = sampleSys and cd = sampleCodec, OF f,
           THEN conjunct2, THEN conjunct2, THEN conjunct2, THEN conjunct2, THEN conjunct1, rule_format,
           OF conjI [OF br conjI [OF ap conjI [OF co conjI [OF pu crf]]]]]
    by blast
  show ?thesis
    unfolding 2 3 4 5 using 1 by (simp add: et d)
qed

subsection \<open>Rejecting through the handler\<close>

text \<open>
  Claim C8, as the code has it. For a payload that decodes to a request identifier,
  \<open>handleSelfModReject\<close> sends one status envelope, \<open>rejected\<close>, and no error envelope,
  whether an engine is configured or not. With an engine it calls \<open>Reject\<close> first and
  ignores the result; without one it calls nothing, and does not fail.
\<close>

theorem reject_reports_rejected:
  assumes "UnmarshalApprove cd pl = Some rid"
  shows "statuses (fst (handleSelfModReject cd pl h)) = [''rejected'']
       \<and> \<not> list_ex isErrorEnvelope (fst (handleSelfModReject cd pl h))
       \<and> (engine h = None \<longrightarrow>
            handleSelfModReject cd pl h = ([sendStatus rid ''rejected'' msgRejected []], h))
       \<and> (\<forall>eng. engine h = Some eng \<longrightarrow>
            handleSelfModReject cd pl h
              = ([CallReject rid, sendStatus rid ''rejected'' msgRejected []],
                 h\<lparr>engine := Some (snd (Reject rid eng))\<rparr>))"
  using assms
  by (auto simp: handleSelfModReject_def sendStatus_def Let_def split: option.splits)

theorem reject_reports_rejected_witness:
  "UnmarshalApprove sampleCodec ''0a1b2c3d-0000'' = Some ''0a1b2c3d-0000''
   \<and> engine bareHandler = None
   \<and> handleSelfModReject sampleCodec ''0a1b2c3d-0000'' bareHandler
       = ([sendStatus ''0a1b2c3d-0000'' ''rejected'' msgRejected []], bareHandler)
   \<and> engine (bareHandler\<lparr>engine := Some (sampleWorld ''pending'')\<rparr>)
       = Some (sampleWorld ''pending'')
   \<and> handleSelfModReject sampleCodec ''0a1b2c3d-0000''
        (bareHandler\<lparr>engine := Some (sampleWorld ''pending'')\<rparr>)
       = ([CallReject ''0a1b2c3d-0000'',
           sendStatus ''0a1b2c3d-0000'' ''rejected'' msgRejected []],
          bareHandler\<lparr>engine := Some (snd (Reject ''0a1b2c3d-0000'' (sampleWorld ''pending'')))\<rparr>)"
proof -
  have u: "UnmarshalApprove sampleCodec ''0a1b2c3d-0000'' = Some ''0a1b2c3d-0000''"
    by (simp add: sampleCodec_def)
  have n: "engine bareHandler = None" by (simp add: bareHandler_def)
  have e: "engine (bareHandler\<lparr>engine := Some (sampleWorld ''pending'')\<rparr>)
       = Some (sampleWorld ''pending'')" by simp
  from reject_reports_rejected [OF u, of bareHandler]
    reject_reports_rejected [OF u, of "bareHandler\<lparr>engine := Some (sampleWorld ''pending'')\<rparr>"]
    u n e
  show ?thesis by simp
qed

text \<open>
  Against claim C8 as stated: the handler has no engine, and the only envelope it sends
  is the status \<open>rejected\<close>; no error is reported.
\<close>

theorem reject_without_engine_reports_rejected:
  "engine bareHandler = None
   \<and> fst (handleSelfModReject sampleCodec ''0a1b2c3d-0000'' bareHandler)
       = [Emit ''selfmod.status''
            (SelfModStatusPayload ''0a1b2c3d-0000'' ''rejected'' msgRejected [])]
   \<and> \<not> list_ex isErrorEnvelope
         (fst (handleSelfModReject sampleCodec ''0a1b2c3d-0000'' bareHandler))"
  by (simp add: handleSelfModReject_def sendStatus_def sampleCodec_def bareHandler_def)

subsection \<open>The default provider\<close>

text \<open>
  Claim C10. When the \<open>provider_id\<close> of a \<open>chat.send\<close> or of a \<open>selfmod.request\<close>
  is empty, the handler looks the provider up under \<open>anthropic\<close>. When one is registered
  under that name, the task the handler starts runs on it and the handler sends no error
  envelope; when none is, the handler sends the error envelope that names \<open>anthropic\<close>
  and starts nothing.
\<close>

theorem empty_provider_id_selects_anthropic:
  "(\<forall>p. UnmarshalChatSend cd pl = Some p \<and> ProviderID p = [] \<longrightarrow>
      (\<forall>llm. registry h ''anthropic'' = Some llm \<longrightarrow>
         (\<exists>t. fst (snd (handleChatSend cd cid pl h)) = Some t \<and> taskProvider t = Some llm)
         \<and> \<not> list_ex isErrorEnvelope (fst (handleChatSend cd cid pl h)))
    \<and> (registry h ''anthropic'' = None \<longrightarrow>
         handleChatSend cd cid pl h
           = ([sendError ''LLM provider not found: anthropic''], None, handleChatCancel cid h)))
   \<and> (\<forall>request. UnmarshalSelfModRequest cd pl = Some (request, []) \<longrightarrow>
      (\<forall>llm. registry h ''anthropic'' = Some llm \<longrightarrow>
         handleSelfModRequest cd pl h
           = ([Emit ''chat.chunk'' (ChatChunkPayload msgGenerating False)],
              Some (GenerateTask llm request)))
    \<and> (registry h ''anthropic'' = None \<longrightarrow>
         handleSelfModRequest cd pl h
           = ([sendError ''LLM provider not found: anthropic''], None)))"
  by (auto simp: handleChatSend_def handleSelfModRequest_def handleSelfModFromChat_def
      handleChatCancel_def GetLLM_def sendError_def Let_def)

theorem empty_provider_id_selects_anthropic_witness:
  "UnmarshalChatSend sampleCodec ''hello''
     = Some \<lparr>Messages = [\<lparr>Role = ''user'', Content = ''hello''\<rparr>], ProviderID = []\<rparr>
   \<and> registry (bareHandler\<lparr>registry := [''anthropic'' \<mapsto> sampleLLM]\<rparr>) ''anthropic''
       = Some sampleLLM
   \<and> map_option taskProvider
        (fst (snd (handleChatSend sampleCodec ''c1'' ''hello''
                     (bareHandler\<lparr>registry := [''anthropic'' \<mapsto> sampleLLM]\<rparr>))))
       = Some (Some sampleLLM)
   \<and> registry bareHandler ''anthropic'' = None
   \<and> handleChatSend sampleCodec ''c1'' ''hello'' bareHandler
       = ([sendError ''LLM provider not found: anthropic''], None,
          handleChatCancel ''c1'' bareHandler)
   \<and> UnmarshalSelfModRequest sampleCodec ''add a module'' = Some (''add a module'', [])
   \<and> handleSelfModRequest sampleCodec ''add a module''
        (bareHandler\<lparr>registry := [''anthropic'' \<mapsto> sampleLLM]\<rparr>)
       = ([Emit ''chat.chunk'' (ChatChunkPayload msgGenerating False)],
          Some (GenerateTask sampleLLM ''add a module''))
   \<and> handleSelfModRequest sampleCodec ''add a module'' bareHandler
       = ([sendError ''LLM provider not found: anthropic''], None)"
proof -
  let ?h = "bareHandler\<lparr>registry := [''anthropic'' \<mapsto> sampleLLM]\<rparr>"
  let ?p = "\<lparr>Messages = [\<lparr>Role = ''user'', Content = ''hello''\<rparr>], ProviderID = []\<rparr>"
  have u: "UnmarshalChatSend sampleCodec ''hello'' = Some ?p"
    and e: "ProviderID ?p = []"
    and v: "UnmarshalSelfModRequest sampleCodec ''add a module'' = Some (''add a module'', [])"
    by (simp_all add: sampleCodec_def)
  have r: "registry ?h ''anthropic'' = Some sampleLLM"
    and n: "registry bareHandler ''anthropic'' = None"
    by (simp_all add: bareHandler_def)
  note T1 = empty_provider_id_selects_anthropic [of sampleCodec "''hello''" ?h "''c1''"]
  note T2 = empty_provider_id_selects_anthropic [of sampleCodec "''hello''" bareHandler "''c1''"]
  note T3 = empty_provider_id_selects_anthropic [of sampleCodec "''add a module''" ?h "''c1''"]
  note T4 = empty_provider_id_selects_anthropic
              [of sampleCodec "''add a module''" bareHandler "''c1''"]
  from T1 u e r obtain t
    where "fst (snd (handleChatSend sampleCodec ''c1'' ''hello'' ?h)) = Some t"
      and "taskProvider t = Some sampleLLM"
    by blast
  then have a: "map_option taskProvider (fst (snd (handleChatSend sampleCodec ''c1'' ''hello'' ?h)))
       = Some (Some sampleLLM)" by simp
  from T2 u e n have b: "handleChatSend sampleCodec ''c1'' ''hello'' bareHandler
       = ([sendError ''LLM provider not found: anthropic''], None,
          handleChatCancel ''c1'' bareHandler)" by blast
  from T3 v r have c: "handleSelfModRequest sampleCodec ''add a module'' ?h
       = ([Emit ''chat.chunk'' (ChatChunkPayload msgGenerating False)],
          Some (GenerateTask sampleLLM ''add a module''))" by blast
  from T4 v n have d: "handleSelfModRequest sampleCodec ''add a module'' bareHandler
       = ([sendError ''LLM provider not found: anthropic''], None)" by blast
  show ?thesis by (intro conjI u r a n b v c d)
qed

end
